theory Spec2Isabelle
  imports Main "HOL-Library.Log_Nat"
begin

section \<open>JavaScript numbers\<close>

text \<open>
  The program computes with JavaScript numbers, that is IEEE-754 binary64 values.
  A finite number is kept as the rational it denotes; every arithmetic operation
  computes the exact rational result and rounds it to the nearest binary64 value,
  ties to even (\<open>round64\<close>), overflowing to an infinity. The sign of zero is not
  kept: no operation the program applies (\<open>toString\<close>, \<open>toFixed\<close>, comparison,
  \<open>JSON.stringify\<close>, division by a positive number) tells \<open>-0\<close> from \<open>0\<close>.
\<close>

datatype number = NaN | PosInf | NegInf | Fin rat

definition ilog2 :: "rat \<Rightarrow> int" where
  \<comment> \<open>for \<open>0 < x\<close>: the \<open>e\<close> with \<open>2^e \<le> x < 2^(e+1)\<close>\<close>
  "ilog2 x = (let (p, q) = quotient_of x; d = bitlen p - bitlen q
              in if 2 powi d \<le> x then d else d - 1)"

definition rhe :: "rat \<Rightarrow> int" where
  \<comment> \<open>round to the nearest integer, ties to even\<close>
  "rhe x = (let f = \<lfloor>x\<rfloor>; r = x - of_int f
            in if r < 1 / 2 then f else if 1 / 2 < r then f + 1
               else if even f then f else f + 1)"

definition two_1024 :: rat where
  "two_1024 = 179769313486231590772930519078902473361797697894230657273430081157732675805500963132708477322407536021120113879871393357658789768814416622492847430639474124377767893424865485276302219601246094119453082952085005768838150682342462881473913110540827237163350510684586298239947245938479716304835356329624224137216"

definition round64 :: "rat \<Rightarrow> number" where
  "round64 x =
     (if x = 0 then Fin 0
      else let e = max (ilog2 \<bar>x\<bar>) (- 1022);
               u = 2 powi (e - 52);
               y = of_int (rhe (x / u)) * u
           in if two_1024 \<le> \<bar>y\<bar> then (if 0 < x then PosInf else NegInf)
              else Fin y)"

definition inf_of_sign :: "rat \<Rightarrow> number" where
  "inf_of_sign s = (if 0 < s then PosInf else NegInf)"

fun num_sgn :: "number \<Rightarrow> rat" where
  "num_sgn NaN = 0"
| "num_sgn PosInf = 1"
| "num_sgn NegInf = - 1"
| "num_sgn (Fin x) = sgn x"

fun num_mul :: "number \<Rightarrow> number \<Rightarrow> number" where
  "num_mul (Fin x) (Fin y) = round64 (x * y)"
| "num_mul NaN b = NaN"
| "num_mul a NaN = NaN"
| "num_mul a b = (if num_sgn a * num_sgn b = 0 then NaN
                  else inf_of_sign (num_sgn a * num_sgn b))"

fun num_div :: "number \<Rightarrow> number \<Rightarrow> number" where
  "num_div (Fin x) (Fin y) =
     (if y = 0 then (if x = 0 then NaN else inf_of_sign x) else round64 (x / y))"
| "num_div NaN b = NaN"
| "num_div a NaN = NaN"
| "num_div (Fin x) b = Fin 0"
| "num_div a (Fin y) = inf_of_sign (num_sgn a * (if y < 0 then - 1 else 1))"
| "num_div a b = NaN"

fun num_add :: "number \<Rightarrow> number \<Rightarrow> number" where
  "num_add (Fin x) (Fin y) = round64 (x + y)"
| "num_add NaN b = NaN"
| "num_add a NaN = NaN"
| "num_add PosInf NegInf = NaN"
| "num_add NegInf PosInf = NaN"
| "num_add (Fin x) b = b"
| "num_add a b = a"

fun num_neg :: "number \<Rightarrow> number" where
  "num_neg NaN = NaN"
| "num_neg PosInf = NegInf"
| "num_neg NegInf = PosInf"
| "num_neg (Fin x) = Fin (- x)"

definition num_sub :: "number \<Rightarrow> number \<Rightarrow> number" where
  "num_sub a b = num_add a (num_neg b)"

fun num_less :: "number \<Rightarrow> number \<Rightarrow> bool" where
  "num_less (Fin x) (Fin y) = (x < y)"
| "num_less NegInf (Fin y) = True"
| "num_less NegInf PosInf = True"
| "num_less (Fin x) PosInf = True"
| "num_less a b = False"

definition num_le :: "number \<Rightarrow> number \<Rightarrow> bool" where
  \<comment> \<open>JavaScript \<open>a <= b\<close>: false as soon as one side is \<open>NaN\<close>\<close>
  "num_le a b = (a \<noteq> NaN \<and> b \<noteq> NaN \<and> (a = b \<or> num_less a b))"

section \<open>Numbers and strings\<close>

text \<open>
  A \<open>char\<close> stands for a UTF-16 code unit below 256. The functions follow
  ECMA-262: \<open>parseFloat\<close> (19.2.4), \<open>Number::toString\<close> (6.1.6.1.20) and
  \<open>Number.prototype.toFixed\<close> (21.1.3.3).
\<close>

definition is_digit :: "char \<Rightarrow> bool" where
  "is_digit c = (c \<in> set ''0123456789'')"

definition digit_val :: "char \<Rightarrow> int" where
  "digit_val c = of_char c - 48"

definition digit_char :: "int \<Rightarrow> char" where
  "digit_char d = char_of (48 + d)"

definition dec_val :: "string \<Rightarrow> int" where
  \<comment> \<open>the value of a string of decimal digits\<close>
  "dec_val ds = foldl (\<lambda>a c. 10 * a + digit_val c) 0 ds"

function decimal_digits :: "int \<Rightarrow> string" where
  \<comment> \<open>the decimal digits of \<open>n \<ge> 0\<close>, without leading zeros\<close>
  "decimal_digits n =
     (if n < 10 then [digit_char n] else decimal_digits (n div 10) @ [digit_char (n mod 10)])"
  by pat_completeness auto
termination
  by (relation "measure nat") auto

definition is_space :: "char \<Rightarrow> bool" where
  \<comment> \<open>WhiteSpace and LineTerminator code units below 256\<close>
  "is_space c = (of_char c \<in> {9, 10, 11, 12, 13, 32, 160 :: int})"

definition exponent_part :: "string \<Rightarrow> int" where
  \<comment> \<open>the value of the ExponentPart that starts the string, 0 when there is none\<close>
  "exponent_part s =
     (case s of
        c # t \<Rightarrow>
          if c = CHR ''e'' \<or> c = CHR ''E'' then
            (case t of
               d # t' \<Rightarrow>
                 if d = CHR ''-'' then
                   - dec_val (takeWhile is_digit t')
                 else if d = CHR ''+'' then dec_val (takeWhile is_digit t')
                 else dec_val (takeWhile is_digit t)
             | [] \<Rightarrow> 0)
          else 0
      | [] \<Rightarrow> 0)"

definition unsigned_literal :: "string \<Rightarrow> number" where
  \<comment> \<open>the longest prefix that is a StrUnsignedDecimalLiteral, rounded; \<open>NaN\<close> without one\<close>
  "unsigned_literal s =
     (if take 8 s = ''Infinity'' then PosInf
      else let ip = takeWhile is_digit s;
               r1 = dropWhile is_digit s;
               fp = (case r1 of c # t \<Rightarrow> if c = CHR ''.'' then takeWhile is_digit t else []
                     | [] \<Rightarrow> []);
               r2 = (case r1 of c # t \<Rightarrow> if c = CHR ''.'' then dropWhile is_digit t else r1
                     | [] \<Rightarrow> [])
           in if ip = [] \<and> fp = [] then NaN
              else round64 (of_int (dec_val (ip @ fp))
                             * 10 powi (exponent_part r2 - int (length fp))))"

definition parseFloat :: "string \<Rightarrow> number" where
  "parseFloat s =
     (case dropWhile is_space s of
        c # t \<Rightarrow>
          if c = CHR ''-'' then num_neg (unsigned_literal t)
          else if c = CHR ''+'' then unsigned_literal t
          else unsigned_literal (c # t)
      | [] \<Rightarrow> NaN)"

definition ilog10 :: "rat \<Rightarrow> int" where
  \<comment> \<open>for \<open>0 < x\<close>: the \<open>n\<close> with \<open>10^n \<le> x < 10^(n+1)\<close>\<close>
  "ilog10 x =
     (if 1 \<le> x then int (length (decimal_digits \<lfloor>x\<rfloor>)) - 1
      else let d = int (length (decimal_digits \<lfloor>1 / x\<rfloor>))
           in if x = 10 powi (1 - d) then 1 - d else - d)"

fun shortest_digits :: "nat \<Rightarrow> nat \<Rightarrow> rat \<Rightarrow> int \<Rightarrow> int \<times> int" where
  \<comment> \<open>\<open>shortest_digits fuel k x n\<close>: the digits \<open>s\<close> and exponent \<open>n\<close> of the shortest
      decimal, of at least \<open>k\<close> digits, that rounds to \<open>x\<close>, where \<open>10^(n-1) \<le> x < 10^n\<close>\<close>
  "shortest_digits 0 k x n = (\<lfloor>x / 10 powi (n - int k)\<rfloor>, n)"
| "shortest_digits (Suc fuel) k x n =
     (let scale = 10 powi (n - int k);
          lo = \<lfloor>x / scale\<rfloor>;
          hi = lo + 1;
          ok_lo = (round64 (of_int lo * scale) = Fin x);
          ok_hi = (round64 (of_int hi * scale) = Fin x);
          pick_hi = (ok_hi \<and> (\<not> ok_lo \<or> of_int hi * scale - x < x - of_int lo * scale
                               \<or> (of_int hi * scale - x = x - of_int lo * scale \<and> even hi)))
      in if pick_hi then (if hi = 10 ^ k then (1, n + 1) else (hi, n))
         else if ok_lo then (lo, n)
         else shortest_digits fuel (Suc k) x n)"

definition strip_zeros :: "string \<Rightarrow> string" where
  \<comment> \<open>drop the trailing zeros of a digit string\<close>
  "strip_zeros ds = rev (dropWhile (\<lambda>c. c = CHR ''0'') (rev ds))"

definition pos_toString :: "rat \<Rightarrow> string" where
  \<comment> \<open>Number::toString of a finite \<open>x > 0\<close>, steps 5 to 10\<close>
  "pos_toString x =
     (let (s, n) = shortest_digits 17 1 x (ilog10 x + 1);
          ds = decimal_digits s;
          k = int (length ds)
      in if k \<le> n \<and> n \<le> 21 then ds @ replicate (nat (n - k)) CHR ''0''
         else if 0 < n \<and> n \<le> 21 then take (nat n) ds @ ''.'' @ drop (nat n) ds
         else if - 6 < n \<and> n \<le> 0 then ''0.'' @ replicate (nat (- n)) CHR ''0'' @ ds
         else (if k = 1 then ds else take 1 ds @ ''.'' @ drop 1 ds)
              @ ''e'' @ (if 0 \<le> n - 1 then ''+'' else ''-'') @ decimal_digits \<bar>n - 1\<bar>)"

fun num_toString :: "number \<Rightarrow> string" where
  "num_toString NaN = ''NaN''"
| "num_toString PosInf = ''Infinity''"
| "num_toString NegInf = ''-Infinity''"
| "num_toString (Fin x) =
     (if x = 0 then ''0'' else if x < 0 then ''-'' @ pos_toString (- x) else pos_toString x)"

definition fixed_units :: "nat \<Rightarrow> rat \<Rightarrow> int" where
  \<comment> \<open>the integer \<open>n\<close> nearest to \<open>x * 10^f\<close>, the larger one of two\<close>
  "fixed_units f x = \<lfloor>x * 10 ^ f + 1 / 2\<rfloor>"

definition fixed_digits :: "nat \<Rightarrow> int \<Rightarrow> string" where
  \<comment> \<open>\<open>n\<close> written with \<open>f\<close> digits after the point\<close>
  "fixed_digits f n =
     (let m = decimal_digits n;
          m' = (if length m \<le> f then replicate (f + 1 - length m) CHR ''0'' @ m else m)
      in if f = 0 then m'
         else take (length m' - f) m' @ ''.'' @ drop (length m' - f) m')"

fun toFixed :: "nat \<Rightarrow> number \<Rightarrow> string" where
  "toFixed f (Fin x) =
     (if 1000000000000000000000 \<le> \<bar>x\<bar> then num_toString (Fin x)
      else (if x < 0 then ''-'' else '''') @ fixed_digits f (fixed_units f \<bar>x\<bar>))"
| "toFixed f a = num_toString a"

section \<open>JavaScript values\<close>

text \<open>
  What a backend answers is untyped: \<open>response.data\<close> and the balances of a ledger
  account are whatever JSON the service sent. \<open>jsval\<close> is that data, with
  \<open>undefined\<close> for a property that is absent. TypeScript's types are erased at run
  time, so a parameter or a field typed \<open>string\<close> still holds \<open>undefined\<close> when the
  caller left the argument out: such parameters and fields are \<open>string option\<close>,
  \<open>None\<close> standing for \<open>undefined\<close>.
\<close>

datatype jsval =
    JUndefined
  | JNull
  | JBool bool
  | JNum number
  | JStr string
  | JArr "jsval list"
  | JObj "(string \<times> jsval) list"

datatype js_error = TypeError string | Error string

fun message :: "js_error \<Rightarrow> string" where
  "message (TypeError m) = m"
| "message (Error m) = m"

fun truthy :: "jsval \<Rightarrow> bool" where
  "truthy JUndefined = False"
| "truthy JNull = False"
| "truthy (JBool b) = b"
| "truthy (JNum n) = (n \<noteq> NaN \<and> n \<noteq> Fin 0)"
| "truthy (JStr s) = (s \<noteq> [])"
| "truthy (JArr xs) = True"
| "truthy (JObj kvs) = True"

definition truthy_string :: "string option \<Rightarrow> bool" where
  \<comment> \<open>\<open>undefined\<close> and the empty string are falsy\<close>
  "truthy_string s = (case s of None \<Rightarrow> False | Some t \<Rightarrow> t \<noteq> [])"

definition or_string :: "string option \<Rightarrow> string \<Rightarrow> string" where
  \<comment> \<open>\<open>s || d\<close> for a string \<open>d\<close>\<close>
  "or_string s d = (case s of None \<Rightarrow> d | Some t \<Rightarrow> if t = [] then d else t)"

definition str_val :: "string option \<Rightarrow> jsval" where
  "str_val s = (case s of None \<Rightarrow> JUndefined | Some t \<Rightarrow> JStr t)"

definition parseFloat_arg :: "string option \<Rightarrow> number" where
  \<comment> \<open>\<open>parseFloat\<close> of a string parameter: \<open>undefined\<close> is first converted to
      the string \<open>undefined\<close>\<close>
  "parseFloat_arg s = parseFloat (case s of None \<Rightarrow> ''undefined'' | Some t \<Rightarrow> t)"

definition get_prop :: "jsval \<Rightarrow> string \<Rightarrow> js_error + jsval" where
  \<comment> \<open>\<open>v.k\<close> for the property names the program reads, none of which is a property
      of a prototype: reading from \<open>undefined\<close> or \<open>null\<close> throws\<close>
  "get_prop v k =
     (case v of
        JUndefined \<Rightarrow>
          Inl (TypeError (''Cannot read properties of undefined (reading '' @ k @ '')''))
      | JNull \<Rightarrow> Inl (TypeError (''Cannot read properties of null (reading '' @ k @ '')''))
      | JObj kvs \<Rightarrow> Inr (case map_of kvs k of None \<Rightarrow> JUndefined | Some x \<Rightarrow> x)
      | _ \<Rightarrow> Inr JUndefined)"

fun join_strings :: "string list \<Rightarrow> string" where
  "join_strings [] = []"
| "join_strings [s] = s"
| "join_strings (s # t) = s @ '','' @ join_strings t"

fun sequence_sum :: "('e + 'a) list \<Rightarrow> 'e + 'a list" where
  \<comment> \<open>the results in order, or the first error\<close>
  "sequence_sum [] = Inr []"
| "sequence_sum (Inl e # rs) = Inl e"
| "sequence_sum (Inr x # rs) = (case sequence_sum rs of Inl e \<Rightarrow> Inl e | Inr xs \<Rightarrow> Inr (x # xs))"

fun js_ToString :: "jsval \<Rightarrow> js_error + string" where
  \<comment> \<open>the abstract operation ToString: an array joins its elements, an object without a
      \<open>toString\<close> of its own is \<open>[object Object]\<close>, and one with a \<open>toString\<close> property
      (a JSON value, so not callable) cannot be converted\<close>
  "js_ToString JUndefined = Inr ''undefined''"
| "js_ToString JNull = Inr ''null''"
| "js_ToString (JBool b) = Inr (if b then ''true'' else ''false'')"
| "js_ToString (JNum n) = Inr (num_toString n)"
| "js_ToString (JStr s) = Inr s"
| "js_ToString (JArr xs) =
     (case sequence_sum (map (\<lambda>x. if x = JUndefined \<or> x = JNull then Inr [] else js_ToString x) xs) of
        Inl e \<Rightarrow> Inl e
      | Inr ss \<Rightarrow> Inr (join_strings ss))"
| "js_ToString (JObj kvs) =
     (if ''toString'' \<in> fst ` set kvs
      then Inl (TypeError ''Cannot convert object to primitive value'')
      else Inr ''[object Object]'')"

definition parseFloat_val :: "jsval \<Rightarrow> js_error + number" where
  "parseFloat_val v = (case js_ToString v of Inl e \<Rightarrow> Inl e | Inr s \<Rightarrow> Inr (parseFloat s))"

definition or_val :: "jsval \<Rightarrow> jsval \<Rightarrow> jsval" where
  \<comment> \<open>\<open>a || b\<close>\<close>
  "or_val a b = (if truthy a then a else b)"

definition obj :: "(string \<times> jsval) list \<Rightarrow> jsval" where
  \<comment> \<open>an object literal as \<open>JSON.stringify\<close> sees it: a property whose value is
      \<open>undefined\<close> is left out\<close>
  "obj kvs = JObj (filter (\<lambda>kv. snd kv \<noteq> JUndefined) kvs)"

definition opt_str :: "string option \<Rightarrow> jsval" where
  "opt_str s = (case s of None \<Rightarrow> JUndefined | Some t \<Rightarrow> JStr t)"

datatype 'a served = Live jsval | Mock 'a

section \<open>The world outside\<close>

text \<open>
  Each backend call either throws (network failure, timeout, a response that is not
  2xx), which is \<open>None\<close>, or resolves to the data it carried. The two clients hold
  their own HTTP and ledger clients. The process environment and the clock are read
  when a result is built.
\<close>

record world =
  STELLAR_NETWORK :: "string option"
  now_iso :: string
  soroswap_get :: "string \<Rightarrow> (string \<times> string option) list option \<Rightarrow> jsval option"
  defindex_get :: "string \<Rightarrow> (string \<times> string option) list option \<Rightarrow> jsval option"
  defindex_post :: "string \<Rightarrow> (string \<times> string option) list \<Rightarrow> jsval option"
  soroswap_loadAccount :: "string option \<Rightarrow> jsval option"
  defindex_loadAccount :: "string option \<Rightarrow> jsval option"

definition offline :: world where
  \<comment> \<open>every backend call fails\<close>
  "offline = \<lparr>STELLAR_NETWORK = None, now_iso = ''2024-06-01T00:00:00.000Z'',
     soroswap_get = (\<lambda>url params. None), defindex_get = (\<lambda>url params. None),
     defindex_post = (\<lambda>url body. None), soroswap_loadAccount = (\<lambda>a. None),
     defindex_loadAccount = (\<lambda>a. None)\<rparr>"

section \<open>The swap-data client (soroswap-client.ts)\<close>

record SoroswapToken =
  address :: "string option"
  symbol :: string
  name :: string
  decimals :: int
  icon :: "string option"

record SoroswapPair =
  pairAddress :: string
  token0 :: SoroswapToken
  token1 :: SoroswapToken
  reserve0 :: string
  reserve1 :: string
  totalSupply :: string
  fee :: string
  volume24h :: "string option"
  tvl :: "string option"
  apr :: "string option"

record SoroswapQuote =
  tokenIn :: SoroswapToken
  tokenOut :: SoroswapToken
  amountIn :: "string option"
  amountOut :: string
  priceImpact :: string
  route :: "string option list"
  slippage :: "string option"
  fee :: string
  minimumReceived :: string
  gasEstimate :: "string option"

record SoroswapPosition =
  pairAddress :: string
  token0 :: string
  token1 :: string
  lpTokenBalance :: string
  shareOfPool :: string
  token0Amount :: string
  token1Amount :: string
  "value" :: string
  pnl :: string
  pnlPercent :: string

definition mockPairs :: "SoroswapPair list" where
  "mockPairs =
     [\<lparr>SoroswapPair.pairAddress = ''CDLZFC3SYJYDZT7K67VZ75HPJVIEUVNIXF47ZG2FB2RMQQAHHAGHJMUOB'',
       SoroswapPair.token0 = \<lparr>SoroswapToken.address = Some ''native'', SoroswapToken.symbol = ''XLM'',
          SoroswapToken.name = ''Stellar Lumens'', SoroswapToken.decimals = 7, SoroswapToken.icon = None\<rparr>,
       SoroswapPair.token1 = \<lparr>SoroswapToken.address = Some ''CAQCFVLOBK5GIULPNZRGATJJMIZL5BSP7X5YJNU4TKDGSR3RCNBFIW7A'',
          SoroswapToken.symbol = ''USDC'', SoroswapToken.name = ''USD Coin'', SoroswapToken.decimals = 6,
          SoroswapToken.icon = None\<rparr>,
       SoroswapPair.reserve0 = ''1000000.0000000'', SoroswapPair.reserve1 = ''120000.000000'',
       SoroswapPair.totalSupply = ''346410.1610000'', SoroswapPair.fee = ''0.3'',
       SoroswapPair.volume24h = Some ''125000'', SoroswapPair.tvl = Some ''240000'',
       SoroswapPair.apr = Some ''12.5''\<rparr>,
      \<lparr>SoroswapPair.pairAddress = ''CAZNWAY5GKNZUY5QFPZJQY7JXDLWNXKXFKQ3KBQPG7QJLCZ7XQMDMCGL'',
       SoroswapPair.token0 = \<lparr>SoroswapToken.address = Some ''native'', SoroswapToken.symbol = ''XLM'',
          SoroswapToken.name = ''Stellar Lumens'', SoroswapToken.decimals = 7, SoroswapToken.icon = None\<rparr>,
       SoroswapPair.token1 = \<lparr>SoroswapToken.address = Some ''CAQCFVLOBK5GIULPNZRGATJJMIZL5BSP7X5YJNU4TKDGSR3RCNBFIW7A'',
          SoroswapToken.symbol = ''AQUA'', SoroswapToken.name = ''Aqua Token'', SoroswapToken.decimals = 7,
          SoroswapToken.icon = None\<rparr>,
       SoroswapPair.reserve0 = ''800000.0000000'', SoroswapPair.reserve1 = ''2500000.0000000'',
       SoroswapPair.totalSupply = ''1414213.5620000'', SoroswapPair.fee = ''0.3'',
       SoroswapPair.volume24h = Some ''85000'', SoroswapPair.tvl = Some ''170000'',
       SoroswapPair.apr = Some ''18.2''\<rparr>]"

definition matches_token :: "string option \<Rightarrow> SoroswapPair \<Rightarrow> bool" where
  \<comment> \<open>the predicate of the filter in \<open>getMockTokenPairs\<close>: strict equality with either
      side's symbol or address\<close>
  "matches_token token pair =
     (Some (SoroswapToken.symbol (SoroswapPair.token0 pair)) = token \<or>
      Some (SoroswapToken.symbol (SoroswapPair.token1 pair)) = token \<or>
      SoroswapToken.address (SoroswapPair.token0 pair) = token \<or>
      SoroswapToken.address (SoroswapPair.token1 pair) = token)"

definition getMockTokenPairs :: "string option \<Rightarrow> SoroswapPair list" where
  "getMockTokenPairs token =
     (if truthy_string token then filter (matches_token token) mockPairs else mockPairs)"

definition getMockSwapQuote ::
  "string option \<Rightarrow> string option \<Rightarrow> string option \<Rightarrow> string option \<Rightarrow> SoroswapQuote" where
  "getMockSwapQuote tokenIn' tokenOut' amountIn' slippage' =
     \<lparr>SoroswapQuote.tokenIn = \<lparr>SoroswapToken.address = tokenIn', SoroswapToken.symbol = ''XLM'',
        SoroswapToken.name = ''Stellar Lumens'', SoroswapToken.decimals = 7, SoroswapToken.icon = None\<rparr>,
      SoroswapQuote.tokenOut = \<lparr>SoroswapToken.address = tokenOut', SoroswapToken.symbol = ''USDC'',
        SoroswapToken.name = ''USD Coin'', SoroswapToken.decimals = 6, SoroswapToken.icon = None\<rparr>,
      SoroswapQuote.amountIn = amountIn',
      SoroswapQuote.amountOut =
        toFixed 6 (num_mul (num_mul (parseFloat_arg amountIn') (round64 (12 / 100)))
                           (round64 (997 / 1000))),
      SoroswapQuote.priceImpact = ''0.1'',
      SoroswapQuote.route = [tokenIn', tokenOut'],
      SoroswapQuote.slippage = slippage',
      SoroswapQuote.fee = ''0.3'',
      SoroswapQuote.minimumReceived =
        toFixed 6 (num_mul (num_mul (num_mul (parseFloat_arg amountIn') (round64 (12 / 100)))
                                    (round64 (997 / 1000)))
                           (num_sub (Fin 1) (num_div (parseFloat_arg slippage') (Fin 100)))),
      SoroswapQuote.gasEstimate = Some ''0.001''\<rparr>"

definition getMockUserPositions_soroswap :: "string option \<Rightarrow> SoroswapPosition list" where
  "getMockUserPositions_soroswap userAddress =
     [\<lparr>SoroswapPosition.pairAddress = ''CDLZFC3SYJYDZT7K67VZ75HPJVIEUVNIXF47ZG2FB2RMQQAHHAGHJMUOB'',
       SoroswapPosition.token0 = ''XLM'', SoroswapPosition.token1 = ''USDC'',
       SoroswapPosition.lpTokenBalance = ''1000.0000000'', SoroswapPosition.shareOfPool = ''0.01'',
       SoroswapPosition.token0Amount = ''8333.3333333'', SoroswapPosition.token1Amount = ''1000.000000'',
       SoroswapPosition.value = ''2000.00'', SoroswapPosition.pnl = ''100.00'',
       SoroswapPosition.pnlPercent = ''5.0''\<rparr>]"

definition getTokenPairs :: "world \<Rightarrow> string option \<Rightarrow> SoroswapPair list served" where
  "getTokenPairs w token =
     (case soroswap_get w ''/api/pairs''
             (if truthy_string token then Some [(''token'', token)] else None) of
        None \<Rightarrow> Mock (getMockTokenPairs token)
      | Some data \<Rightarrow>
          (case get_prop data ''pairs'' of
             Inl e \<Rightarrow> Mock (getMockTokenPairs token)
           | Inr pairs \<Rightarrow> Live (or_val pairs (JArr []))))"

definition getSwapQuote ::
  "world \<Rightarrow> string option \<Rightarrow> string option \<Rightarrow> string option \<Rightarrow> string option
     \<Rightarrow> SoroswapQuote served" where
  "getSwapQuote w tokenIn' tokenOut' amountIn' slippage' =
     (case soroswap_get w ''/api/quote''
             (Some [(''tokenIn'', tokenIn'), (''tokenOut'', tokenOut'), (''amountIn'', amountIn'),
                    (''slippage'', slippage')]) of
        None \<Rightarrow> Mock (getMockSwapQuote tokenIn' tokenOut' amountIn' slippage')
      | Some data \<Rightarrow> Live data)"

fun lp_position :: "jsval \<Rightarrow> js_error + jsval" where
  \<comment> \<open>the callback of \<open>lpPositions.map\<close>\<close>
  "lp_position position =
     (case get_prop position ''liquidity_pool_id'' of
        Inl e \<Rightarrow> Inl e
      | Inr pool_id \<Rightarrow>
          (case get_prop position ''balance'' of
             Inl e \<Rightarrow> Inl e
           | Inr balance \<Rightarrow> Inr (obj [(''pairAddress'', pool_id), (''lpTokenBalance'', balance)])))"

definition is_lp_share :: "jsval \<Rightarrow> js_error + bool" where
  \<comment> \<open>the callback of \<open>balances.filter\<close>\<close>
  "is_lp_share balance =
     (case get_prop balance ''asset_type'' of
        Inl e \<Rightarrow> Inl e
      | Inr t \<Rightarrow> Inr (t = JStr ''liquidity_pool_shares''))"

definition filter_sum :: "('a \<Rightarrow> 'e + bool) \<Rightarrow> 'a list \<Rightarrow> 'e + 'a list" where
  \<comment> \<open>\<open>Array.prototype.filter\<close> with a callback that may throw\<close>
  "filter_sum p xs =
     (case sequence_sum (map p xs) of
        Inl e \<Rightarrow> Inl e
      | Inr bs \<Rightarrow> Inr (map fst (filter snd (zip xs bs))))"

definition soroswap_live_positions :: "jsval \<Rightarrow> js_error + jsval" where
  \<comment> \<open>the body of the \<open>try\<close> of \<open>getUserPositions\<close>, from \<open>account.balances\<close> on\<close>
  "soroswap_live_positions balances =
     (case balances of
        JArr bs \<Rightarrow>
          (case filter_sum is_lp_share bs of
             Inl e \<Rightarrow> Inl e
           | Inr lps \<Rightarrow>
               (case sequence_sum (map lp_position lps) of
                  Inl e \<Rightarrow> Inl e
                | Inr ps \<Rightarrow> Inr (JArr ps)))
      | _ \<Rightarrow> Inl (TypeError ''balances.filter is not a function''))"

definition getUserPositions_soroswap :: "world \<Rightarrow> string option \<Rightarrow> SoroswapPosition list served" where
  "getUserPositions_soroswap w userAddress =
     (case soroswap_loadAccount w userAddress of
        None \<Rightarrow> Mock (getMockUserPositions_soroswap userAddress)
      | Some balances \<Rightarrow>
          (case soroswap_live_positions balances of
             Inl e \<Rightarrow> Mock (getMockUserPositions_soroswap userAddress)
           | Inr ps \<Rightarrow> Live ps))"

section \<open>The vault-data client (defindex-client.ts)\<close>

datatype RiskLevel = low | medium | high

fun RiskLevel_string :: "RiskLevel \<Rightarrow> string" where
  "RiskLevel_string low = ''low''"
| "RiskLevel_string medium = ''medium''"
| "RiskLevel_string high = ''high''"

record FeeStructure =
  managementFee :: string
  performanceFee :: string

record Performance =
  perf_7d :: string
  perf_30d :: string
  perf_90d :: string
  perf_1y :: string

record DefindexVault =
  address :: string
  name :: string
  symbol :: string
  totalAssets :: string
  totalSupply :: string
  apy :: string
  strategy :: string
  riskLevel :: RiskLevel
  underlyingTokens :: "string list"
  underlyingProtocols :: "string list"
  feeStructure :: FeeStructure
  performance :: "Performance option"

record DefindexPosition =
  vaultAddress :: string
  vaultName :: string
  shares :: string
  underlyingValue :: string
  entryPrice :: string
  currentPrice :: string
  pnl :: string
  pnlPercent :: string
  depositedAt :: string

record DefindexAllocation =
  vaultAddress :: string
  vaultName :: string
  allocation :: string
  amount :: string
  expectedApy :: string
  riskLevel :: RiskLevel

record Fees =
  depositFee :: string
  managementFee :: string
  performanceFee :: string

record DepositCalculation =
  vaultAddress :: "string option"
  depositAmount :: "string option"
  timeframe :: "string option"
  expectedShares :: string
  projectedValue :: string
  projectedYield :: string
  fees :: Fees

record Optimization =
  totalAmount :: "string option"
  riskTolerance :: "string option"
  timeHorizon :: "string option"
  recommendedAllocation :: "DefindexAllocation list"
  expectedPortfolioApy :: string
  diversificationScore :: string

definition mockVaults :: "DefindexVault list" where
  "mockVaults =
     [\<lparr>DefindexVault.address = ''CBQHNAXSI55GX2GN6D67GK7BHKQKQHX4J5DYKEN6PKVP7DTCMMY7XAQD'',
       DefindexVault.name = ''Stellar Stable Yield Vault'',
       DefindexVault.symbol = ''SSYV'',
       DefindexVault.totalAssets = ''1000000.0000000'',
       DefindexVault.totalSupply = ''950000.0000000'',
       DefindexVault.apy = ''8.5'',
       DefindexVault.strategy = ''USDC-XLM Liquidity Mining on Soroswap'',
       DefindexVault.riskLevel = low,
       DefindexVault.underlyingTokens = [''USDC'', ''XLM''],
       DefindexVault.underlyingProtocols = [''Soroswap''],
       DefindexVault.feeStructure =
         \<lparr>FeeStructure.managementFee = ''1.0'', FeeStructure.performanceFee = ''10.0''\<rparr>,
       DefindexVault.performance =
         Some \<lparr>perf_7d = ''0.15'', perf_30d = ''0.68'', perf_90d = ''2.1'', perf_1y = ''8.5''\<rparr>\<rparr>,
      \<lparr>DefindexVault.address = ''CDLZFC3SYJYDZT7K67VZ75HPJVIEUVNIXF47ZG2FB2RMQQAHHAGHJMUOB'',
       DefindexVault.name = ''Balanced Growth Vault'',
       DefindexVault.symbol = ''BGV'',
       DefindexVault.totalAssets = ''500000.0000000'',
       DefindexVault.totalSupply = ''480000.0000000'',
       DefindexVault.apy = ''15.2'',
       DefindexVault.strategy = ''Multi-Protocol Yield Farming'',
       DefindexVault.riskLevel = medium,
       DefindexVault.underlyingTokens = [''XLM'', ''USDC'', ''AQUA''],
       DefindexVault.underlyingProtocols = [''Soroswap'', ''Stellar DEX''],
       DefindexVault.feeStructure =
         \<lparr>FeeStructure.managementFee = ''1.5'', FeeStructure.performanceFee = ''15.0''\<rparr>,
       DefindexVault.performance =
         Some \<lparr>perf_7d = ''0.25'', perf_30d = ''1.2'', perf_90d = ''3.8'', perf_1y = ''15.2''\<rparr>\<rparr>,
      \<lparr>DefindexVault.address = ''CAZNWAY5GKNZUY5QFPZJQY7JXDLWNXKXFKQ3KBQPG7QJLCZ7XQMDMCGL'',
       DefindexVault.name = ''High Yield Vault'',
       DefindexVault.symbol = ''HYV'',
       DefindexVault.totalAssets = ''250000.0000000'',
       DefindexVault.totalSupply = ''230000.0000000'',
       DefindexVault.apy = ''25.7'',
       DefindexVault.strategy = ''Leveraged Yield Farming'',
       DefindexVault.riskLevel = high,
       DefindexVault.underlyingTokens = [''XLM'', ''AQUA''],
       DefindexVault.underlyingProtocols = [''Soroswap'', ''Lending Protocol''],
       DefindexVault.feeStructure =
         \<lparr>FeeStructure.managementFee = ''2.0'', FeeStructure.performanceFee = ''20.0''\<rparr>,
       DefindexVault.performance =
         Some \<lparr>perf_7d = ''0.45'', perf_30d = ''2.0'', perf_90d = ''6.4'', perf_1y = ''25.7''\<rparr>\<rparr>]"

definition getMockVaults :: "string option \<Rightarrow> string option \<Rightarrow> DefindexVault list" where
  "getMockVaults riskLevel' minApy =
     (let filteredVaults = mockVaults;
          filteredVaults =
            (if truthy_string riskLevel'
             then filter (\<lambda>vault. Some (RiskLevel_string (DefindexVault.riskLevel vault)) = riskLevel')
                    filteredVaults
             else filteredVaults);
          filteredVaults =
            (if truthy_string minApy
             then filter (\<lambda>vault. num_le (parseFloat_arg minApy) (parseFloat (DefindexVault.apy vault)))
                    filteredVaults
             else filteredVaults)
      in filteredVaults)"

definition getMockVaultDetails :: "string option \<Rightarrow> DefindexVault" where
  \<comment> \<open>\<open>mockVaults.find(...) || mockVaults[0]\<close>, over the unfiltered catalog, which is
      never empty\<close>
  "getMockVaultDetails vaultAddress' =
     (let mockVaults' = getMockVaults None None
      in case find (\<lambda>vault. Some (DefindexVault.address vault) = vaultAddress') mockVaults' of
           Some vault \<Rightarrow> vault
         | None \<Rightarrow> mockVaults' ! 0)"

definition apyMultiplier :: "string option \<Rightarrow> number" where
  "apyMultiplier timeframe' =
     (if timeframe' = Some ''1y'' then Fin 1
      else if timeframe' = Some ''6m'' then round64 (1 / 2)
      else round64 (25 / 100))"

definition getMockDepositCalculation ::
  "string option \<Rightarrow> string option \<Rightarrow> string option \<Rightarrow> DepositCalculation" where
  \<comment> \<open>the object under \<open>calculation\<close> of the result\<close>
  "getMockDepositCalculation vaultAddress' depositAmount' timeframe' =
     (let vault = getMockVaultDetails vaultAddress';
          apyMultiplier' = apyMultiplier timeframe'
      in \<lparr>DepositCalculation.vaultAddress = vaultAddress',
          DepositCalculation.depositAmount = depositAmount',
          DepositCalculation.timeframe = timeframe',
          DepositCalculation.expectedShares =
            num_toString (num_mul (parseFloat_arg depositAmount') (round64 (95 / 100))),
          DepositCalculation.projectedValue =
            num_toString
              (num_mul (parseFloat_arg depositAmount')
                 (num_add (Fin 1)
                    (num_mul (num_div (parseFloat (DefindexVault.apy vault)) (Fin 100))
                       apyMultiplier'))),
          DepositCalculation.projectedYield =
            num_toString
              (num_mul
                 (num_div (num_mul (parseFloat_arg depositAmount') (parseFloat (DefindexVault.apy vault)))
                    (Fin 100))
                 apyMultiplier'),
          DepositCalculation.fees =
            \<lparr>Fees.depositFee = ''0'',
             Fees.managementFee =
               num_toString
                 (num_div
                    (num_mul (parseFloat_arg depositAmount')
                       (parseFloat (FeeStructure.managementFee (DefindexVault.feeStructure vault))))
                    (Fin 100)),
             Fees.performanceFee =
               num_toString
                 (num_div
                    (num_mul
                       (num_div
                          (num_mul (parseFloat_arg depositAmount') (parseFloat (DefindexVault.apy vault)))
                          (Fin 100))
                       (parseFloat (FeeStructure.performanceFee (DefindexVault.feeStructure vault))))
                    (Fin 100))\<rparr>\<rparr>)"

definition getMockUserPositions_defindex :: "string option \<Rightarrow> DefindexPosition list" where
  "getMockUserPositions_defindex userAddress =
     [\<lparr>DefindexPosition.vaultAddress = ''CBQHNAXSI55GX2GN6D67GK7BHKQKQHX4J5DYKEN6PKVP7DTCMMY7XAQD'',
       DefindexPosition.vaultName = ''Stellar Stable Yield Vault'',
       DefindexPosition.shares = ''5000.0000000'',
       DefindexPosition.underlyingValue = ''5200.0000000'',
       DefindexPosition.entryPrice = ''1.0000000'',
       DefindexPosition.currentPrice = ''1.0400000'',
       DefindexPosition.pnl = ''200.0000000'',
       DefindexPosition.pnlPercent = ''4.0'',
       DefindexPosition.depositedAt = ''2024-01-01T00:00:00Z''\<rparr>,
      \<lparr>DefindexPosition.vaultAddress = ''CDLZFC3SYJYDZT7K67VZ75HPJVIEUVNIXF47ZG2FB2RMQQAHHAGHJMUOB'',
       DefindexPosition.vaultName = ''Balanced Growth Vault'',
       DefindexPosition.shares = ''4500.0000000'',
       DefindexPosition.underlyingValue = ''4800.0000000'',
       DefindexPosition.entryPrice = ''1.0000000'',
       DefindexPosition.currentPrice = ''1.0667000'',
       DefindexPosition.pnl = ''300.0000000'',
       DefindexPosition.pnlPercent = ''6.67'',
       DefindexPosition.depositedAt = ''2024-01-15T00:00:00Z''\<rparr>]"

definition allocation_of ::
  "string \<Rightarrow> string \<Rightarrow> string \<Rightarrow> number \<Rightarrow> string \<Rightarrow> RiskLevel \<Rightarrow> DefindexAllocation" where
  \<comment> \<open>one \<open>allocations.push({...})\<close>\<close>
  "allocation_of addr nm percent amt apy' risk =
     \<lparr>DefindexAllocation.vaultAddress = addr, DefindexAllocation.vaultName = nm,
      DefindexAllocation.allocation = percent, DefindexAllocation.amount = num_toString amt,
      DefindexAllocation.expectedApy = apy', DefindexAllocation.riskLevel = risk\<rparr>"

definition mock_allocations :: "string option \<Rightarrow> string option \<Rightarrow> DefindexAllocation list" where
  \<comment> \<open>the three branches of \<open>getMockOptimization\<close> that fill \<open>allocations\<close>\<close>
  "mock_allocations totalAmount' riskTolerance' =
     (if riskTolerance' = Some ''conservative'' then
        [allocation_of ''CBQHNAXSI55GX2GN6D67GK7BHKQKQHX4J5DYKEN6PKVP7DTCMMY7XAQD''
           ''Stellar Stable Yield Vault'' ''70''
           (num_mul (parseFloat_arg totalAmount') (round64 (7 / 10))) ''8.5'' low,
         allocation_of ''CDLZFC3SYJYDZT7K67VZ75HPJVIEUVNIXF47ZG2FB2RMQQAHHAGHJMUOB''
           ''Balanced Growth Vault'' ''30''
           (num_mul (parseFloat_arg totalAmount') (round64 (3 / 10))) ''15.2'' medium]
      else if riskTolerance' = Some ''moderate'' then
        [allocation_of ''CBQHNAXSI55GX2GN6D67GK7BHKQKQHX4J5DYKEN6PKVP7DTCMMY7XAQD''
           ''Stellar Stable Yield Vault'' ''50''
           (num_mul (parseFloat_arg totalAmount') (round64 (5 / 10))) ''8.5'' low,
         allocation_of ''CDLZFC3SYJYDZT7K67VZ75HPJVIEUVNIXF47ZG2FB2RMQQAHHAGHJMUOB''
           ''Balanced Growth Vault'' ''50''
           (num_mul (parseFloat_arg totalAmount') (round64 (5 / 10))) ''15.2'' medium]
      else
        [allocation_of ''CBQHNAXSI55GX2GN6D67GK7BHKQKQHX4J5DYKEN6PKVP7DTCMMY7XAQD''
           ''Stellar Stable Yield Vault'' ''30''
           (num_mul (parseFloat_arg totalAmount') (round64 (3 / 10))) ''8.5'' low,
         allocation_of ''CDLZFC3SYJYDZT7K67VZ75HPJVIEUVNIXF47ZG2FB2RMQQAHHAGHJMUOB''
           ''Balanced Growth Vault'' ''40''
           (num_mul (parseFloat_arg totalAmount') (round64 (4 / 10))) ''15.2'' medium,
         allocation_of ''CAZNWAY5GKNZUY5QFPZJQY7JXDLWNXKXFKQ3KBQPG7QJLCZ7XQMDMCGL''
           ''High Yield Vault'' ''30''
           (num_mul (parseFloat_arg totalAmount') (round64 (3 / 10))) ''25.7'' high])"

definition getMockOptimization ::
  "string option \<Rightarrow> string option \<Rightarrow> string option \<Rightarrow> Optimization" where
  \<comment> \<open>the object under \<open>optimization\<close> of the result\<close>
  "getMockOptimization totalAmount' riskTolerance' timeHorizon' =
     (let allocations = mock_allocations totalAmount' riskTolerance';
          expectedPortfolioApy' =
            foldl (\<lambda>sum allocation'.
                     num_add sum
                       (num_mul (num_div (parseFloat (DefindexAllocation.allocation allocation')) (Fin 100))
                          (parseFloat (DefindexAllocation.expectedApy allocation'))))
              (Fin 0) allocations
      in \<lparr>Optimization.totalAmount = totalAmount',
          Optimization.riskTolerance = riskTolerance',
          Optimization.timeHorizon = timeHorizon',
          Optimization.recommendedAllocation = allocations,
          Optimization.expectedPortfolioApy = toFixed 2 expectedPortfolioApy',
          Optimization.diversificationScore = ''85''\<rparr>)"

definition url_part :: "string option \<Rightarrow> string" where
  \<comment> \<open>a parameter inside a template literal\<close>
  "url_part s = (case s of None \<Rightarrow> ''undefined'' | Some t \<Rightarrow> t)"

definition spread_if :: "string \<Rightarrow> string option \<Rightarrow> (string \<times> string option) list" where
  \<comment> \<open>\<open>...(x && { x })\<close>\<close>
  "spread_if k x = (if truthy_string x then [(k, x)] else [])"

definition getAvailableVaults ::
  "world \<Rightarrow> string option \<Rightarrow> string option \<Rightarrow> DefindexVault list served" where
  "getAvailableVaults w riskLevel' minApy =
     (case defindex_get w ''/api/vaults''
             (Some (spread_if ''riskLevel'' riskLevel' @ spread_if ''minApy'' minApy)) of
        None \<Rightarrow> Mock (getMockVaults riskLevel' minApy)
      | Some data \<Rightarrow>
          (case get_prop data ''vaults'' of
             Inl e \<Rightarrow> Mock (getMockVaults riskLevel' minApy)
           | Inr vaults \<Rightarrow> Live (or_val vaults (JArr []))))"

definition getVaultDetails :: "world \<Rightarrow> string option \<Rightarrow> DefindexVault served" where
  "getVaultDetails w vaultAddress' =
     (case defindex_get w (''/api/vault/'' @ url_part vaultAddress') None of
        None \<Rightarrow> Mock (getMockVaultDetails vaultAddress')
      | Some data \<Rightarrow> Live data)"

definition default_param :: "string option \<Rightarrow> string \<Rightarrow> string option" where
  \<comment> \<open>a default parameter value replaces \<open>undefined\<close> only\<close>
  "default_param x d = (case x of None \<Rightarrow> Some d | Some t \<Rightarrow> Some t)"

definition calculateVaultDeposit ::
  "world \<Rightarrow> string option \<Rightarrow> string option \<Rightarrow> string option \<Rightarrow> DepositCalculation served" where
  "calculateVaultDeposit w vaultAddress' depositAmount' timeframe' =
     (case defindex_post w ''/api/vault/calculate''
             [(''vaultAddress'', vaultAddress'), (''depositAmount'', depositAmount'),
              (''timeframe'', default_param timeframe' ''1y'')] of
        None \<Rightarrow>
          Mock (getMockDepositCalculation vaultAddress' depositAmount' (default_param timeframe' ''1y''))
      | Some data \<Rightarrow> Live data)"

definition optimizeYieldAllocation ::
  "world \<Rightarrow> string option \<Rightarrow> string option \<Rightarrow> string option \<Rightarrow> Optimization served" where
  "optimizeYieldAllocation w totalAmount' riskTolerance' timeHorizon' =
     (case defindex_post w ''/api/optimize''
             [(''totalAmount'', totalAmount'), (''riskTolerance'', riskTolerance'),
              (''timeHorizon'', default_param timeHorizon' ''1y'')] of
        None \<Rightarrow> Mock (getMockOptimization totalAmount' riskTolerance' (default_param timeHorizon' ''1y''))
      | Some data \<Rightarrow> Live data)"

definition is_vault_balance :: "jsval \<Rightarrow> js_error + bool" where
  \<comment> \<open>the callback of \<open>balances.filter\<close> in the ledger fallback\<close>
  "is_vault_balance balance =
     (case get_prop balance ''asset_type'' of
        Inl e \<Rightarrow> Inl e
      | Inr t \<Rightarrow> Inr (t = JStr ''credit_alphanum4'' \<or> t = JStr ''credit_alphanum12''))"

definition vault_position :: "string \<Rightarrow> jsval \<Rightarrow> js_error + jsval" where
  \<comment> \<open>the callback of \<open>vaultPositions.map\<close>; the elements passed the filter, so none is
      \<open>undefined\<close> or \<open>null\<close>\<close>
  "vault_position now position =
     (case (get_prop position ''asset_issuer'', get_prop position ''asset_code'',
            get_prop position ''balance'') of
        (Inr issuer, Inr code, Inr balance) \<Rightarrow>
          (case js_ToString code of
             Inl e \<Rightarrow> Inl e
           | Inr code_string \<Rightarrow>
               Inr (obj [(''vaultAddress'', or_val issuer (JStr ''unknown'')),
                         (''vaultName'', JStr (code_string @ '' Vault'')),
                         (''shares'', balance),
                         (''underlyingValue'', balance),
                         (''entryPrice'', JStr ''1.0''),
                         (''currentPrice'', JStr ''1.0''),
                         (''pnl'', JStr ''0''),
                         (''pnlPercent'', JStr ''0''),
                         (''depositedAt'', JStr now)]))
      | (Inl e, _, _) \<Rightarrow> Inl e
      | (_, Inl e, _) \<Rightarrow> Inl e
      | (_, _, Inl e) \<Rightarrow> Inl e)"

definition defindex_ledger_positions :: "string \<Rightarrow> jsval \<Rightarrow> js_error + jsval" where
  \<comment> \<open>the body of the inner \<open>try\<close> of \<open>getUserPositions\<close>, from \<open>account.balances\<close> on\<close>
  "defindex_ledger_positions now balances =
     (case balances of
        JArr bs \<Rightarrow>
          (case filter_sum is_vault_balance bs of
             Inl e \<Rightarrow> Inl e
           | Inr vps \<Rightarrow>
               (case sequence_sum (map (vault_position now) vps) of
                  Inl e \<Rightarrow> Inl e
                | Inr ps \<Rightarrow> Inr (JArr ps)))
      | _ \<Rightarrow> Inl (TypeError ''balances.filter is not a function''))"

definition ledger_fallback :: "world \<Rightarrow> string option \<Rightarrow> DefindexPosition list served" where
  \<comment> \<open>the \<open>catch\<close> of \<open>getUserPositions\<close>: the ledger, then the mock\<close>
  "ledger_fallback w userAddress =
     (case defindex_loadAccount w userAddress of
        None \<Rightarrow> Mock (getMockUserPositions_defindex userAddress)
      | Some balances \<Rightarrow>
          (case defindex_ledger_positions (now_iso w) balances of
             Inl e \<Rightarrow> Mock (getMockUserPositions_defindex userAddress)
           | Inr ps \<Rightarrow> Live ps))"

definition getUserPositions_defindex :: "world \<Rightarrow> string option \<Rightarrow> DefindexPosition list served" where
  "getUserPositions_defindex w userAddress =
     (case defindex_get w (''/api/positions/'' @ url_part userAddress) None of
        None \<Rightarrow> ledger_fallback w userAddress
      | Some data \<Rightarrow>
          (case get_prop data ''positions'' of
             Inl e \<Rightarrow> ledger_fallback w userAddress
           | Inr positions \<Rightarrow> Live (or_val positions (JArr []))))"

section \<open>JSON.stringify\<close>

text \<open>
  \<open>JSON.stringify(value, null, 2)\<close> of ECMA-262 (25.5.2), on the values the program
  passes it: objects, arrays, strings, numbers, booleans and \<open>null\<close>. A property whose
  value is \<open>undefined\<close> is left out, an \<open>undefined\<close> array element and a number that
  is not finite are written \<open>null\<close>, and each nesting level is indented by two spaces.
  A \<open>JObj\<close> lists the properties of the object in property order.
\<close>

fun join_with :: "string \<Rightarrow> string list \<Rightarrow> string" where
  "join_with sep [] = []"
| "join_with sep [s] = s"
| "join_with sep (s # t) = s @ sep @ join_with sep t"

definition hex_digit :: "int \<Rightarrow> char" where
  "hex_digit d = (if d < 10 then char_of (48 + d) else char_of (87 + d))"

definition json_escape :: "char \<Rightarrow> string" where
  \<comment> \<open>QuoteJSONString, one code unit\<close>
  "json_escape c =
     (let n = of_char c :: int
      in if n = 34 then [CHR 0x5C, CHR 0x22]
         else if n = 92 then [CHR 0x5C, CHR 0x5C]
         else if n = 8 then [CHR 0x5C, CHR ''b'']
         else if n = 12 then [CHR 0x5C, CHR ''f'']
         else if n = 10 then [CHR 0x5C, CHR ''n'']
         else if n = 13 then [CHR 0x5C, CHR ''r'']
         else if n = 9 then [CHR 0x5C, CHR ''t'']
         else if n < 32
           then [CHR 0x5C, CHR ''u'', CHR ''0'', CHR ''0'', hex_digit (n div 16), hex_digit (n mod 16)]
         else [c])"

definition json_quote :: "string \<Rightarrow> string" where
  "json_quote s = [CHR 0x22] @ concat (map json_escape s) @ [CHR 0x22]"

definition indent :: "nat \<Rightarrow> string" where
  "indent l = replicate (2 * l) CHR '' ''"

fun stringify_at :: "nat \<Rightarrow> jsval \<Rightarrow> string" where
  "stringify_at l JUndefined = ''null''"
| "stringify_at l JNull = ''null''"
| "stringify_at l (JBool b) = (if b then ''true'' else ''false'')"
| "stringify_at l (JNum n) = (case n of Fin x \<Rightarrow> num_toString n | _ \<Rightarrow> ''null'')"
| "stringify_at l (JStr s) = json_quote s"
| "stringify_at l (JArr xs) =
     (if xs = [] then ''[]''
      else ''['' @ [CHR 0x0A] @ indent (Suc l)
           @ join_with ('','' @ [CHR 0x0A] @ indent (Suc l)) (map (stringify_at (Suc l)) xs)
           @ [CHR 0x0A] @ indent l @ '']'')"
| "stringify_at l (JObj kvs) =
     (let ps = concat (map (\<lambda>kv. if snd kv = JUndefined then []
                                    else [json_quote (fst kv) @ '': '' @ stringify_at (Suc l) (snd kv)])
                         kvs)
      in if ps = [] then ''{}''
         else ''{'' @ [CHR 0x0A] @ indent (Suc l)
              @ join_with ('','' @ [CHR 0x0A] @ indent (Suc l)) ps
              @ [CHR 0x0A] @ indent l @ ''}'')"

definition JSON_stringify :: "jsval \<Rightarrow> string" where
  "JSON_stringify v = stringify_at 0 v"

section \<open>The clients' records as JavaScript values\<close>

definition str_list :: "string list \<Rightarrow> jsval" where
  "str_list ss = JArr (map JStr ss)"

definition token_json :: "SoroswapToken \<Rightarrow> jsval" where
  "token_json t =
     JObj [(''address'', opt_str (SoroswapToken.address t)),
           (''symbol'', JStr (SoroswapToken.symbol t)),
           (''name'', JStr (SoroswapToken.name t)),
           (''decimals'', JNum (Fin (of_int (SoroswapToken.decimals t)))),
           (''icon'', opt_str (SoroswapToken.icon t))]"

definition pair_json :: "SoroswapPair \<Rightarrow> jsval" where
  "pair_json p =
     JObj [(''pairAddress'', JStr (SoroswapPair.pairAddress p)),
           (''token0'', token_json (SoroswapPair.token0 p)),
           (''token1'', token_json (SoroswapPair.token1 p)),
           (''reserve0'', JStr (SoroswapPair.reserve0 p)),
           (''reserve1'', JStr (SoroswapPair.reserve1 p)),
           (''totalSupply'', JStr (SoroswapPair.totalSupply p)),
           (''fee'', JStr (SoroswapPair.fee p)),
           (''volume24h'', opt_str (SoroswapPair.volume24h p)),
           (''tvl'', opt_str (SoroswapPair.tvl p)),
           (''apr'', opt_str (SoroswapPair.apr p))]"

definition quote_json :: "SoroswapQuote \<Rightarrow> jsval" where
  "quote_json q =
     JObj [(''tokenIn'', token_json (SoroswapQuote.tokenIn q)),
           (''tokenOut'', token_json (SoroswapQuote.tokenOut q)),
           (''amountIn'', opt_str (SoroswapQuote.amountIn q)),
           (''amountOut'', JStr (SoroswapQuote.amountOut q)),
           (''priceImpact'', JStr (SoroswapQuote.priceImpact q)),
           (''route'', JArr (map opt_str (SoroswapQuote.route q))),
           (''slippage'', opt_str (SoroswapQuote.slippage q)),
           (''fee'', JStr (SoroswapQuote.fee q)),
           (''minimumReceived'', JStr (SoroswapQuote.minimumReceived q)),
           (''gasEstimate'', opt_str (SoroswapQuote.gasEstimate q))]"

definition soroswap_position_json :: "SoroswapPosition \<Rightarrow> jsval" where
  "soroswap_position_json p =
     JObj [(''pairAddress'', JStr (SoroswapPosition.pairAddress p)),
           (''token0'', JStr (SoroswapPosition.token0 p)),
           (''token1'', JStr (SoroswapPosition.token1 p)),
           (''lpTokenBalance'', JStr (SoroswapPosition.lpTokenBalance p)),
           (''shareOfPool'', JStr (SoroswapPosition.shareOfPool p)),
           (''token0Amount'', JStr (SoroswapPosition.token0Amount p)),
           (''token1Amount'', JStr (SoroswapPosition.token1Amount p)),
           (''value'', JStr (SoroswapPosition.value p)),
           (''pnl'', JStr (SoroswapPosition.pnl p)),
           (''pnlPercent'', JStr (SoroswapPosition.pnlPercent p))]"

definition vault_json :: "DefindexVault \<Rightarrow> jsval" where
  "vault_json v =
     JObj [(''address'', JStr (DefindexVault.address v)),
           (''name'', JStr (DefindexVault.name v)),
           (''symbol'', JStr (DefindexVault.symbol v)),
           (''totalAssets'', JStr (DefindexVault.totalAssets v)),
           (''totalSupply'', JStr (DefindexVault.totalSupply v)),
           (''apy'', JStr (DefindexVault.apy v)),
           (''strategy'', JStr (DefindexVault.strategy v)),
           (''riskLevel'', JStr (RiskLevel_string (DefindexVault.riskLevel v))),
           (''underlyingTokens'', str_list (DefindexVault.underlyingTokens v)),
           (''underlyingProtocols'', str_list (DefindexVault.underlyingProtocols v)),
           (''feeStructure'',
              JObj [(''managementFee'', JStr (FeeStructure.managementFee (DefindexVault.feeStructure v))),
                    (''performanceFee'', JStr (FeeStructure.performanceFee (DefindexVault.feeStructure v)))]),
           (''performance'',
              (case DefindexVault.performance v of
                 None \<Rightarrow> JUndefined
               | Some p \<Rightarrow>
                   JObj [(''7d'', JStr (perf_7d p)), (''30d'', JStr (perf_30d p)),
                         (''90d'', JStr (perf_90d p)), (''1y'', JStr (perf_1y p))]))]"

definition defindex_position_json :: "DefindexPosition \<Rightarrow> jsval" where
  "defindex_position_json p =
     JObj [(''vaultAddress'', JStr (DefindexPosition.vaultAddress p)),
           (''vaultName'', JStr (DefindexPosition.vaultName p)),
           (''shares'', JStr (DefindexPosition.shares p)),
           (''underlyingValue'', JStr (DefindexPosition.underlyingValue p)),
           (''entryPrice'', JStr (DefindexPosition.entryPrice p)),
           (''currentPrice'', JStr (DefindexPosition.currentPrice p)),
           (''pnl'', JStr (DefindexPosition.pnl p)),
           (''pnlPercent'', JStr (DefindexPosition.pnlPercent p)),
           (''depositedAt'', JStr (DefindexPosition.depositedAt p))]"

fun served_val :: "('a \<Rightarrow> jsval) \<Rightarrow> 'a served \<Rightarrow> jsval" where
  \<comment> \<open>what the caller of a client method holds: the backend's data or the mock\<close>
  "served_val f (Live v) = v"
| "served_val f (Mock x) = f x"

section \<open>The server (index.ts)\<close>

record TextContent =
  content_type :: string
  "text" :: string



text \<open>
  \<open>arguments\<close> is \<open>request.params.arguments\<close> read at the types the tools declare:
  \<open>strings a k\<close> is the string argument \<open>k\<close>, \<open>None\<close> when it is absent (also when
  there is no arguments object at all, \<open>args?.k\<close>), and \<open>includeRecommendations\<close> the one
  boolean argument. A result without \<open>isError\<close> has \<open>isError = None\<close>.
\<close>

fun fold_sum :: "(jsval \<Rightarrow> js_error + number) \<Rightarrow> jsval list \<Rightarrow> number \<Rightarrow> js_error + number" where
  "fold_sum f [] acc = Inr acc"
| "fold_sum f (x # xs) acc =
     (case f x of Inl e \<Rightarrow> Inl e | Inr n \<Rightarrow> fold_sum f xs (num_add acc n))"

definition reduce_sum :: "string \<Rightarrow> (jsval \<Rightarrow> js_error + number) \<Rightarrow> jsval \<Rightarrow> js_error + number" where
  \<comment> \<open>\<open>xs.reduce((sum, x) => sum + f(x), 0)\<close>: only an array has \<open>reduce\<close>\<close>
  "reduce_sum what f xs =
     (case xs of
        JArr vs \<Rightarrow> fold_sum f vs (Fin 0)
      | _ \<Rightarrow> Inl (TypeError (what @ ''.reduce is not a function'')))"

definition field_or_zero :: "string \<Rightarrow> jsval \<Rightarrow> js_error + number" where
  \<comment> \<open>\<open>parseFloat(x.k || '0')\<close>\<close>
  "field_or_zero k x =
     (case get_prop x k of Inl e \<Rightarrow> Inl e | Inr v \<Rightarrow> parseFloat_val (or_val v (JStr ''0'')))"

definition field_number :: "string \<Rightarrow> jsval \<Rightarrow> js_error + number" where
  \<comment> \<open>\<open>parseFloat(x.k)\<close>\<close>
  "field_number k x = (case get_prop x k of Inl e \<Rightarrow> Inl e | Inr v \<Rightarrow> parseFloat_val v)"

definition js_length :: "jsval \<Rightarrow> jsval" where
  \<comment> \<open>\<open>xs.length\<close> of an array\<close>
  "js_length xs = (case xs of JArr vs \<Rightarrow> JNum (Fin (of_int (int (length vs)))) | _ \<Rightarrow> JUndefined)"

definition network :: "world \<Rightarrow> jsval" where
  \<comment> \<open>\<open>process.env.STELLAR_NETWORK || 'testnet'\<close>\<close>
  "network w = JStr (or_string (STELLAR_NETWORK w) ''testnet'')"

definition catch_payload :: "string \<Rightarrow> js_error + string \<Rightarrow> string" where
  \<comment> \<open>the \<open>try { ... } catch (error) { return JSON.stringify({error, details, fallback}) }\<close>
      of a handler; every value thrown inside is an \<open>Error\<close>\<close>
  "catch_payload title body =
     (case body of
        Inr s \<Rightarrow> s
      | Inl e \<Rightarrow>
          JSON_stringify
            (JObj [(''error'', JStr title),
                   (''details'', JStr (message e)),
                   (''fallback'', JStr ''Using mock data due to API unavailability'')]))"

definition getSoroswapTokenPairs :: "world \<Rightarrow> string option \<Rightarrow> string" where
  "getSoroswapTokenPairs w token =
     catch_payload ''Failed to fetch Soroswap token pairs''
       (let pairs = served_val (\<lambda>ps. JArr (map pair_json ps)) (getTokenPairs w token)
        in case reduce_sum ''pairs'' (field_or_zero ''tvl'') pairs of
             Inl e \<Rightarrow> Inl e
           | Inr totalTvl \<Rightarrow>
               Inr (JSON_stringify
                      (JObj [(''pairs'', pairs),
                             (''total'', js_length pairs),
                             (''totalTvl'', JStr (num_toString totalTvl)),
                             (''network'', network w),
                             (''timestamp'', JStr (now_iso w))])))"

definition getSoroswapSwapQuote ::
  "world \<Rightarrow> string option \<Rightarrow> string option \<Rightarrow> string option \<Rightarrow> string option \<Rightarrow> string" where
  "getSoroswapSwapQuote w tokenIn' tokenOut' amountIn' slippage' =
     catch_payload ''Failed to fetch Soroswap swap quote''
       (let quote = served_val quote_json (getSwapQuote w tokenIn' tokenOut' amountIn' slippage')
        in Inr (JSON_stringify
                  (JObj [(''quote'', quote),
                         (''network'', network w),
                         (''timestamp'', JStr (now_iso w))])))"

definition mockPools :: "jsval list" where
  \<comment> \<open>the literal of \<open>getSoroswapLiquidityPools\<close>\<close>
  "mockPools =
     [JObj [(''address'', JStr ''0x123...abc''), (''token0'', JStr ''XLM''), (''token1'', JStr ''USDC''),
            (''reserve0'', JStr ''1000000''), (''reserve1'', JStr ''500000''),
            (''totalSupply'', JStr ''707106''), (''apr'', JStr ''12.5''),
            (''volume24h'', JStr ''125000''), (''fees24h'', JStr ''375'')],
      JObj [(''address'', JStr ''0x456...def''), (''token0'', JStr ''XLM''), (''token1'', JStr ''AQUA''),
            (''reserve0'', JStr ''800000''), (''reserve1'', JStr ''200000''),
            (''totalSupply'', JStr ''400000''), (''apr'', JStr ''18.2''),
            (''volume24h'', JStr ''85000''), (''fees24h'', JStr ''255'')]]"

definition getSoroswapLiquidityPools :: "string option \<Rightarrow> string" where
  "getSoroswapLiquidityPools pairAddress' =
     (let result =
            (if truthy_string pairAddress'
             then (case find (\<lambda>pool. get_prop pool ''address'' = Inr (opt_str pairAddress')) mockPools of
                     None \<Rightarrow> JUndefined
                   | Some pool \<Rightarrow> pool)
             else JArr mockPools)
      in JSON_stringify
           (JObj [(''pools'', result),
                  (''message'', JStr ''Mock data - In production, this would fetch from Soroswap contracts'')]))"

definition object_prototype_methods :: "string list" where
  \<comment> \<open>the function-valued properties every object inherits from \<open>Object.prototype\<close>\<close>
  "object_prototype_methods =
     [''constructor'', ''__defineGetter__'', ''__defineSetter__'', ''hasOwnProperty'',
      ''__lookupGetter__'', ''__lookupSetter__'', ''isPrototypeOf'', ''propertyIsEnumerable'',
      ''toString'', ''valueOf'', ''toLocaleString'']"

definition mockPrices :: "(string \<times> number) list" where
  \<comment> \<open>the literal of \<open>getSoroswapTokenPrice\<close>\<close>
  "mockPrices = [(''XLM'', round64 (12 / 100)), (''USDC'', Fin 1), (''AQUA'', round64 (8 / 100))]"

definition price_lookup :: "string option \<Rightarrow> jsval" where
  \<comment> \<open>\<open>mockPrices[tokenAddress] || 0\<close> as \<open>JSON.stringify\<close> writes it: a key that names an
      inherited function gives that function, which is left out; \<open>__proto__\<close> gives
      \<open>Object.prototype\<close>, written as an empty object\<close>
  "price_lookup tokenAddress =
     (let key = url_part tokenAddress
      in case map_of mockPrices key of
           Some p \<Rightarrow> JNum p
         | None \<Rightarrow>
             if key \<in> set object_prototype_methods then JUndefined
             else if key = ''__proto__'' then JObj []
             else JNum (Fin 0))"

definition getSoroswapTokenPrice :: "world \<Rightarrow> string option \<Rightarrow> string option \<Rightarrow> string" where
  "getSoroswapTokenPrice w tokenAddress baseCurrency =
     (let price = price_lookup tokenAddress
      in JSON_stringify
           (JObj [(''token'', opt_str tokenAddress),
                  (''price'', price),
                  (''baseCurrency'', opt_str baseCurrency),
                  (''change24h'', JStr ''2.5''),
                  (''volume24h'', JStr ''125000''),
                  (''timestamp'', JStr (now_iso w)),
                  (''message'', JStr ''Mock data - In production, this would fetch from price oracles'')]))"

definition getDefindexVaults :: "world \<Rightarrow> string option \<Rightarrow> string option \<Rightarrow> string" where
  "getDefindexVaults w riskLevel' minApy =
     catch_payload ''Failed to fetch DeFindex vaults''
       (let vaults = served_val (\<lambda>vs. JArr (map vault_json vs)) (getAvailableVaults w riskLevel' minApy)
        in case reduce_sum ''vaults'' (field_number ''totalAssets'') vaults of
             Inl e \<Rightarrow> Inl e
           | Inr totalTvl \<Rightarrow>
               Inr (JSON_stringify
                      (JObj [(''vaults'', vaults),
                             (''total'', js_length vaults),
                             (''totalTvl'', JStr (num_toString totalTvl)),
                             (''network'', network w),
                             (''timestamp'', JStr (now_iso w))])))"

definition getDefindexVaultDetails :: "string option \<Rightarrow> string" where
  "getDefindexVaultDetails vaultAddress' =
     (let mockVault =
            JObj [(''address'', opt_str vaultAddress'),
                  (''name'', JStr ''Stable Yield Vault''),
                  (''symbol'', JStr ''SYV''),
                  (''totalAssets'', JStr ''1000000''),
                  (''totalSupply'', JStr ''950000''),
                  (''apy'', JStr ''8.5''),
                  (''strategy'', JStr ''USDC-XLM Liquidity Mining''),
                  (''riskLevel'', JStr ''low''),
                  (''underlyingTokens'', str_list [''USDC'', ''XLM'']),
                  (''underlyingProtocols'', str_list [''Soroswap'']),
                  (''feeStructure'',
                     JObj [(''managementFee'', JStr ''1.0''), (''performanceFee'', JStr ''10.0'')]),
                  (''performance'',
                     JObj [(''7d'', JStr ''0.15''), (''30d'', JStr ''0.68''), (''90d'', JStr ''2.1''),
                           (''1y'', JStr ''8.5'')])]
      in JSON_stringify
           (JObj [(''vault'', mockVault),
                  (''message'',
                     JStr ''Mock data - In production, this would fetch from DeFindex vault contract'')]))"

definition optimizeDefindexAllocation :: "string option \<Rightarrow> string option \<Rightarrow> string option \<Rightarrow> string" where
  "optimizeDefindexAllocation totalAmount' riskTolerance' timeHorizon' =
     (let conservative = (riskTolerance' = Some ''conservative'');
          mockOptimization =
            JObj [(''totalAmount'', opt_str totalAmount'),
                  (''riskTolerance'', opt_str riskTolerance'),
                  (''timeHorizon'', opt_str timeHorizon'),
                  (''recommendedAllocation'',
                     JArr [JObj [(''vaultAddress'', JStr ''0xabc123...''),
                                 (''vaultName'', JStr ''Stable Yield Vault''),
                                 (''allocation'', JStr (if conservative then ''70'' else ''50'')),
                                 (''amount'',
                                    JStr (num_toString
                                            (num_mul (parseFloat_arg totalAmount')
                                               (if conservative then round64 (7 / 10)
                                                else round64 (5 / 10))))),
                                 (''expectedApy'', JStr ''8.5''),
                                 (''riskLevel'', JStr ''low'')],
                           JObj [(''vaultAddress'', JStr ''0xdef456...''),
                                 (''vaultName'', JStr ''Balanced Growth Vault''),
                                 (''allocation'', JStr (if conservative then ''30'' else ''50'')),
                                 (''amount'',
                                    JStr (num_toString
                                            (num_mul (parseFloat_arg totalAmount')
                                               (if conservative then round64 (3 / 10)
                                                else round64 (5 / 10))))),
                                 (''expectedApy'', JStr ''15.2''),
                                 (''riskLevel'', JStr ''medium'')]]),
                  (''expectedPortfolioApy'', JStr (if conservative then ''10.51'' else ''11.85'')),
                  (''diversificationScore'', JStr ''85'')]
      in JSON_stringify
           (JObj [(''optimization'', mockOptimization),
                  (''message'',
                     JStr ''Mock data - In production, this would use advanced optimization algorithms'')]))"

definition totalPnlPercent_of :: "number \<Rightarrow> number \<Rightarrow> string" where
  \<comment> \<open>\<open>totalValue > 0 ? (totalPnl / totalValue * 100).toFixed(2) : '0'\<close>\<close>
  "totalPnlPercent_of totalPnl totalValue =
     (if num_less (Fin 0) totalValue
      then toFixed 2 (num_mul (num_div totalPnl totalValue) (Fin 100))
      else ''0'')"

definition recommendations :: jsval where
  "recommendations =
     JArr [JObj [(''type'', JStr ''rebalancing''),
                 (''description'',
                    JStr ''Consider rebalancing towards more DeFindex positions for better yield''),
                 (''impact'', JStr ''Potential 2.5% APY increase'')],
           JObj [(''type'', JStr ''diversification''),
                 (''description'',
                    JStr ''Add exposure to high-yield DeFindex vault for better returns''),
                 (''impact'', JStr ''Improved risk-adjusted returns'')]]"

definition portfolio_analysis :: "world \<Rightarrow> string option \<Rightarrow> bool \<Rightarrow> js_error + jsval" where
  \<comment> \<open>the \<open>analysis\<close> object that the \<open>try\<close> of \<open>getCombinedPortfolioAnalysis\<close> builds,
      or what it throws\<close>
  "portfolio_analysis w userAddress includeRecommendations' =
     (let soroswapPositions =
            served_val (\<lambda>ps. JArr (map soroswap_position_json ps)) (getUserPositions_soroswap w userAddress);
          defindexPositions =
            served_val (\<lambda>ps. JArr (map defindex_position_json ps)) (getUserPositions_defindex w userAddress)
      in case (reduce_sum ''soroswapPositions'' (field_or_zero ''value'') soroswapPositions,
               reduce_sum ''defindexPositions'' (field_number ''underlyingValue'') defindexPositions,
               reduce_sum ''soroswapPositions'' (field_or_zero ''pnl'') soroswapPositions,
               reduce_sum ''defindexPositions'' (field_number ''pnl'') defindexPositions) of
           (Inr soroswapValue, Inr defindexValue, Inr soroswapPnl, Inr defindexPnl) \<Rightarrow>
             (let totalValue = num_add soroswapValue defindexValue;
                  totalPnl = num_add soroswapPnl defindexPnl
              in Inr (JObj
                   ([(''userAddress'', opt_str userAddress),
                     (''summary'',
                        JObj [(''totalValue'', JStr (num_toString totalValue)),
                              (''soroswapValue'', JStr (num_toString soroswapValue)),
                              (''defindexValue'', JStr (num_toString defindexValue)),
                              (''totalPnl'', JStr (num_toString totalPnl)),
                              (''totalPnlPercent'', JStr (totalPnlPercent_of totalPnl totalValue))]),
                     (''soroswapPositions'', soroswapPositions),
                     (''defindexPositions'', defindexPositions),
                     (''riskMetrics'',
                        JObj [(''portfolioRisk'', JStr ''medium''),
                              (''diversificationScore'', JStr ''78''),
                              (''concentrationRisk'', JStr ''low'')])]
                    @ (if includeRecommendations' then [(''recommendations'', recommendations)] else []))))
         | (Inl e, _, _, _) \<Rightarrow> Inl e
         | (_, Inl e, _, _) \<Rightarrow> Inl e
         | (_, _, Inl e, _) \<Rightarrow> Inl e
         | (_, _, _, Inl e) \<Rightarrow> Inl e)"

definition getCombinedPortfolioAnalysis :: "world \<Rightarrow> string option \<Rightarrow> bool \<Rightarrow> string" where
  "getCombinedPortfolioAnalysis w userAddress includeRecommendations' =
     catch_payload ''Failed to fetch combined portfolio analysis''
       (case portfolio_analysis w userAddress includeRecommendations' of
          Inl e \<Rightarrow> Inl e
        | Inr analysis \<Rightarrow>
            Inr (JSON_stringify
                   (JObj [(''analysis'', analysis),
                          (''network'', network w),
                          (''timestamp'', JStr (now_iso w))])))"





section \<open>Notions used in the statements\<close>

definition percent_total :: "DefindexAllocation list \<Rightarrow> number" where
  \<comment> \<open>the allocation percentages of a plan, parsed and added up as JavaScript numbers\<close>
  "percent_total allocations =
     foldl (\<lambda>sum a. num_add sum (parseFloat (DefindexAllocation.allocation a))) (Fin 0) allocations"

definition split_of :: "Optimization \<Rightarrow> (string \<times> RiskLevel \<times> string) list" where
  \<comment> \<open>vault address, risk level and percentage of each allocation of a plan, in order\<close>
  "split_of plan =
     map (\<lambda>a. (DefindexAllocation.vaultAddress a, DefindexAllocation.riskLevel a,
                DefindexAllocation.allocation a))
       (Optimization.recommendedAllocation plan)"

definition vault_share :: "DefindexVault \<Rightarrow> string \<Rightarrow> string \<times> RiskLevel \<times> string" where
  \<comment> \<open>a catalog vault taking the given percentage\<close>
  "vault_share vault percent = (DefindexVault.address vault, DefindexVault.riskLevel vault, percent)"


definition json_object_text :: "string \<Rightarrow> bool" where
  \<comment> \<open>the string is what \<open>JSON.stringify\<close> writes for some object\<close>
  "json_object_text s = (\<exists>kvs. s = JSON_stringify (JObj kvs))"


definition summary_field :: "jsval \<Rightarrow> string \<Rightarrow> jsval" where
  \<comment> \<open>\<open>analysis.summary.k\<close>\<close>
  "summary_field analysis k =
     (case get_prop analysis ''summary'' of
        Inl e \<Rightarrow> JUndefined
      | Inr summary \<Rightarrow> (case get_prop summary k of Inl e \<Rightarrow> JUndefined | Inr v \<Rightarrow> v))"

definition one_position_world :: world where
  \<comment> \<open>the vault backend reports one position worth 3 with a profit of 1, and the ledger
      account of the swap side holds no balances\<close>
  "one_position_world =
     offline\<lparr>defindex_get :=
               (\<lambda>url params.
                  if url = ''/api/positions/GUSER''
                  then Some (JObj [(''positions'',
                          JArr [JObj [(''underlyingValue'', JStr ''3''), (''pnl'', JStr ''1'')]])])
                  else None),
             soroswap_loadAccount := (\<lambda>a. Some (JArr []))\<rparr>"

definition no_position_world :: world where
  \<comment> \<open>both backends answer, and the user holds nothing\<close>
  "no_position_world =
     offline\<lparr>defindex_get := (\<lambda>url params. Some (JObj [(''positions'', JArr [])])),
             soroswap_loadAccount := (\<lambda>a. Some (JArr []))\<rparr>"

section \<open>The mock catalogs\<close>

lemma getMockVaults_unfiltered: "getMockVaults None None = mockVaults"
  by (simp add: getMockVaults_def truthy_string_def)

lemma catalog_risk_levels: "map DefindexVault.riskLevel mockVaults = [low, medium, high]"
  by (simp add: mockVaults_def)

lemma sum_70_30: "num_add (num_add (Fin 0) (parseFloat ''70'')) (parseFloat ''30'') = Fin 100"
  by code_simp

lemma sum_50_50: "num_add (num_add (Fin 0) (parseFloat ''50'')) (parseFloat ''50'') = Fin 100"
  by code_simp

lemma sum_30_40_30:
  "num_add (num_add (num_add (Fin 0) (parseFloat ''30'')) (parseFloat ''40'')) (parseFloat ''30'')
     = Fin 100"
  by code_simp

lemma percent_total_mock: "percent_total (mock_allocations t r) = Fin 100"
  by (simp add: percent_total_def mock_allocations_def allocation_of_def
        sum_70_30 sum_50_50 sum_30_40_30)

lemma split_aggressive:
  "r \<noteq> Some ''conservative'' \<Longrightarrow> r \<noteq> Some ''moderate'' \<Longrightarrow>
   split_of (getMockOptimization t r h) =
     [vault_share (mockVaults ! 0) ''30'', vault_share (mockVaults ! 1) ''40'',
      vault_share (mockVaults ! 2) ''30'']"
  by (simp add: split_of_def getMockOptimization_def mock_allocations_def allocation_of_def
        vault_share_def mockVaults_def)

lemma split_conservative:
  "split_of (getMockOptimization t (Some ''conservative'') h) =
     [vault_share (mockVaults ! 0) ''70'', vault_share (mockVaults ! 1) ''30'']"
  by (simp add: split_of_def getMockOptimization_def mock_allocations_def allocation_of_def
        vault_share_def mockVaults_def)

lemma split_moderate:
  "split_of (getMockOptimization t (Some ''moderate'') h) =
     [vault_share (mockVaults ! 0) ''50'', vault_share (mockVaults ! 1) ''50'']"
  by (simp add: split_of_def getMockOptimization_def mock_allocations_def allocation_of_def
        vault_share_def mockVaults_def)

lemma optimize_offline:
  "defindex_post w ''/api/optimize''
     [(''totalAmount'', t), (''riskTolerance'', r), (''timeHorizon'', default_param h ''1y'')] = None
   \<Longrightarrow> optimizeYieldAllocation w t r h = Mock (getMockOptimization t r (default_param h ''1y''))"
  by (simp add: optimizeYieldAllocation_def)

text \<open>
  C3. When the optimisation endpoint fails, \<open>optimizeYieldAllocation\<close> answers from
  \<open>getMockOptimization\<close>: for \<open>aggressive\<close> exactly three allocations, 30 to the first
  (low-risk) catalog vault, 40 to the second (medium-risk) and 30 to the third (high-risk);
  for \<open>conservative\<close> 70 and 30 to the first two; for \<open>moderate\<close> 50 and 50.
\<close>

theorem C3_fixed_weight_split:
  assumes "\<forall>body. defindex_post w ''/api/optimize'' body = None"
  shows "(\<exists>plan. optimizeYieldAllocation w t (Some ''aggressive'') h = Mock plan \<and>
            split_of plan = [vault_share (mockVaults ! 0) ''30'', vault_share (mockVaults ! 1) ''40'',
                             vault_share (mockVaults ! 2) ''30'']) \<and>
         (\<exists>plan. optimizeYieldAllocation w t (Some ''conservative'') h = Mock plan \<and>
            split_of plan = [vault_share (mockVaults ! 0) ''70'', vault_share (mockVaults ! 1) ''30'']) \<and>
         (\<exists>plan. optimizeYieldAllocation w t (Some ''moderate'') h = Mock plan \<and>
            split_of plan = [vault_share (mockVaults ! 0) ''50'', vault_share (mockVaults ! 1) ''50'']) \<and>
         map DefindexVault.riskLevel mockVaults = [low, medium, high]"
proof -
  have off: "optimizeYieldAllocation w t r h = Mock (getMockOptimization t r (default_param h ''1y''))"
    for r
    using assms by (simp add: optimize_offline)
  have "split_of (getMockOptimization t (Some ''aggressive'') (default_param h ''1y'')) =
          [vault_share (mockVaults ! 0) ''30'', vault_share (mockVaults ! 1) ''40'',
           vault_share (mockVaults ! 2) ''30'']"
    by (rule split_aggressive) simp_all
  then show ?thesis
    using off split_conservative split_moderate catalog_risk_levels by simp
qed

theorem C3_fixed_weight_split_witness:
  "(\<forall>body. defindex_post offline ''/api/optimize'' body = None) \<and>
   (\<exists>plan. optimizeYieldAllocation offline (Some ''10000'') (Some ''aggressive'') None = Mock plan \<and>
      split_of plan = [vault_share (mockVaults ! 0) ''30'', vault_share (mockVaults ! 1) ''40'',
                       vault_share (mockVaults ! 2) ''30''])"
proof -
  have off: "\<forall>body. defindex_post offline ''/api/optimize'' body = None"
    by (simp add: offline_def)
  from C3_fixed_weight_split [OF off, of "Some ''10000''" None] off show ?thesis
    by blast
qed

text \<open>
  C4. When the optimisation endpoint fails, the allocation percentages of the plan that
  \<open>optimizeYieldAllocation\<close> returns add up to exactly 100, for every total amount and
  every risk tolerance (the three named ones included).
\<close>

theorem C4_percentages_sum_to_100:
  assumes "\<forall>body. defindex_post w ''/api/optimize'' body = None"
  shows "\<exists>plan. optimizeYieldAllocation w totalAmount' riskTolerance' h = Mock plan \<and>
           percent_total (Optimization.recommendedAllocation plan) = Fin 100"
  using assms
  by (simp add: optimize_offline getMockOptimization_def Let_def percent_total_mock)

theorem C4_percentages_sum_to_100_witness:
  "(\<forall>body. defindex_post offline ''/api/optimize'' body = None) \<and>
   (\<exists>plan. optimizeYieldAllocation offline (Some ''2500.75'') (Some ''moderate'') (Some ''6m'') = Mock plan \<and>
      percent_total (Optimization.recommendedAllocation plan) = Fin 100)"
proof -
  have off: "\<forall>body. defindex_post offline ''/api/optimize'' body = None"
    by (simp add: offline_def)
  from C4_percentages_sum_to_100 [OF off] off show ?thesis
    by blast
qed

text \<open>
  C7. When the vault endpoint fails and the address is not one of the catalog,
  \<open>getVaultDetails\<close> does not fail: it returns the first vault of the catalog, the
  low-risk Stellar Stable Yield Vault.
\<close>

theorem C7_unknown_vault_defaults_to_first:
  assumes "defindex_get w (''/api/vault/'' @ url_part vaultAddress') None = None"
    and "vaultAddress' \<notin> Some ` DefindexVault.address ` set mockVaults"
  shows "getVaultDetails w vaultAddress' = Mock (mockVaults ! 0) \<and>
         DefindexVault.name (mockVaults ! 0) = ''Stellar Stable Yield Vault'' \<and>
         DefindexVault.riskLevel (mockVaults ! 0) = low"
proof -
  have "find (\<lambda>vault. Some (DefindexVault.address vault) = vaultAddress') mockVaults = None"
    using assms(2) by (auto simp: find_None_iff)
  then have "getMockVaultDetails vaultAddress' = mockVaults ! 0"
    by (simp add: getMockVaultDetails_def getMockVaults_unfiltered)
  then show ?thesis
    using assms(1) by (simp add: getVaultDetails_def mockVaults_def)
qed

theorem C7_unknown_vault_defaults_to_first_witness:
  "defindex_get offline (''/api/vault/'' @ url_part (Some ''no-such-vault'')) None = None \<and>
   Some ''no-such-vault'' \<notin> Some ` DefindexVault.address ` set mockVaults \<and>
   getVaultDetails offline (Some ''no-such-vault'') = Mock (mockVaults ! 0) \<and>
   DefindexVault.name (mockVaults ! 0) = ''Stellar Stable Yield Vault''"
proof -
  have a: "defindex_get offline (''/api/vault/'' @ url_part (Some ''no-such-vault'')) None = None"
    by (simp add: offline_def)
  have b: "Some ''no-such-vault'' \<notin> Some ` DefindexVault.address ` set mockVaults"
    by (simp add: mockVaults_def)
  from C7_unknown_vault_defaults_to_first [OF a b] a b show ?thesis
    by simp
qed

text \<open>
  C8, as stated: for every token filter value the mock list is exactly the pairs one of
  whose sides has the token as its symbol or address. It fails for the empty string,
  which the guard \<open>token ? ... : mockPairs\<close> treats as no filter: both pairs come back,
  though neither matches.
\<close>

theorem C8_empty_filter_counterexample:
  "getTokenPairs offline (Some '''') = Mock mockPairs \<and>
   filter (matches_token (Some '''')) mockPairs = [] \<and>
   getTokenPairs offline (Some '''') \<noteq> Mock (filter (matches_token (Some '''')) mockPairs)"
  by (simp add: getTokenPairs_def offline_def getMockTokenPairs_def truthy_string_def
        matches_token_def mockPairs_def)

text \<open>
  C8, amended. When the pairs endpoint fails, the list returned for a token is a part of
  the list returned without one; for a token that is not the empty string it is exactly
  the pairs of that list one of whose sides has the token as its symbol or its address
  (strict string equality), in catalog order; for the empty string it is the whole list.
\<close>

theorem C8_filter_is_exact_match_subset:
  assumes "\<forall>params. soroswap_get w ''/api/pairs'' params = None"
  shows "\<exists>ps every.
           getTokenPairs w token = Mock ps \<and> getTokenPairs w None = Mock every \<and>
           set ps \<subseteq> set every \<and>
           (if token = None \<or> token = Some '''' then ps = every
            else ps = filter (matches_token token) every)"
  using assms
  by (cases token)
     (auto simp: getTokenPairs_def getMockTokenPairs_def truthy_string_def)

theorem C8_filter_is_exact_match_subset_witness:
  "(\<forall>params. soroswap_get offline ''/api/pairs'' params = None) \<and>
   (\<exists>ps every.
      getTokenPairs offline (Some ''AQUA'') = Mock ps \<and> getTokenPairs offline None = Mock every \<and>
      set ps \<subseteq> set every \<and> ps = filter (matches_token (Some ''AQUA'')) every \<and>
      map SoroswapPair.pairAddress ps = [''CAZNWAY5GKNZUY5QFPZJQY7JXDLWNXKXFKQ3KBQPG7QJLCZ7XQMDMCGL''])"
proof -
  have off: "\<forall>params. soroswap_get offline ''/api/pairs'' params = None"
    by (simp add: offline_def)
  have "map SoroswapPair.pairAddress (filter (matches_token (Some ''AQUA'')) (getMockTokenPairs None))
          = [''CAZNWAY5GKNZUY5QFPZJQY7JXDLWNXKXFKQ3KBQPG7QJLCZ7XQMDMCGL'']"
    by (simp add: getMockTokenPairs_def truthy_string_def matches_token_def mockPairs_def)
  with C8_filter_is_exact_match_subset [OF off, of "Some ''AQUA''"] off show ?thesis
    by (auto simp: getTokenPairs_def)
qed

text \<open>
  C10. The mock optimisation has no branch that rejects a risk tolerance: when the
  endpoint fails, every risk tolerance that is neither \<open>conservative\<close> nor \<open>moderate\<close>
  (the empty string, an absent one, a word outside the enumeration) gets the plan that
  \<open>aggressive\<close> gets, the same allocations and the same expected APY.
\<close>

theorem C10_other_tolerance_is_aggressive:
  assumes "\<forall>body. defindex_post w ''/api/optimize'' body = None"
    and "riskTolerance' \<noteq> Some ''conservative''" and "riskTolerance' \<noteq> Some ''moderate''"
  shows "\<exists>plan aggressive.
           optimizeYieldAllocation w totalAmount' riskTolerance' h = Mock plan \<and>
           optimizeYieldAllocation w totalAmount' (Some ''aggressive'') h = Mock aggressive \<and>
           Optimization.recommendedAllocation plan = Optimization.recommendedAllocation aggressive \<and>
           Optimization.expectedPortfolioApy plan = Optimization.expectedPortfolioApy aggressive \<and>
           length (Optimization.recommendedAllocation plan) = 3"
proof -
  have "mock_allocations totalAmount' riskTolerance' = mock_allocations totalAmount' (Some ''aggressive'')"
    using assms(2,3) by (simp add: mock_allocations_def)
  moreover have "length (mock_allocations totalAmount' (Some ''aggressive'')) = 3"
    by (simp add: mock_allocations_def)
  ultimately show ?thesis
    using assms(1) by (simp add: optimize_offline getMockOptimization_def Let_def)
qed

theorem C10_other_tolerance_is_aggressive_witness:
  "(\<forall>body. defindex_post offline ''/api/optimize'' body = None) \<and>
   Some '''' \<noteq> Some ''conservative'' \<and> Some '''' \<noteq> Some ''moderate'' \<and>
   (\<exists>plan aggressive.
      optimizeYieldAllocation offline (Some ''100'') (Some '''') None = Mock plan \<and>
      optimizeYieldAllocation offline (Some ''100'') (Some ''aggressive'') None = Mock aggressive \<and>
      Optimization.recommendedAllocation plan = Optimization.recommendedAllocation aggressive \<and>
      length (Optimization.recommendedAllocation plan) = 3)"
proof -
  have off: "\<forall>body. defindex_post offline ''/api/optimize'' body = None"
    by (simp add: offline_def)
  have a: "Some '''' \<noteq> Some ''conservative''" and b: "Some '''' \<noteq> Some ''moderate''"
    by simp_all
  from C10_other_tolerance_is_aggressive [OF off a b, of "Some ''100''" None] off show ?thesis
    by blast
qed

section \<open>The dispatcher\<close>

lemma json_object_textI: "json_object_text (JSON_stringify (JObj kvs))"
  unfolding json_object_text_def by (rule exI) (rule refl)


lemma catch_payload_json:
  assumes "\<And>s. body = Inr s \<Longrightarrow> json_object_text s"
  shows "json_object_text (catch_payload title body)"
proof (cases body)
  case (Inl e)
  then show ?thesis
    unfolding catch_payload_def by (simp only: sum.case) (rule json_object_textI)
next
  case (Inr s)
  with assms show ?thesis
    unfolding catch_payload_def by simp
qed

lemma lift_json:
  assumes "(case r of Inl e \<Rightarrow> Inl e | Inr (x::'a) \<Rightarrow> Inr (JSON_stringify (JObj (f x)))) = Inr s"
  shows "json_object_text s"
proof (cases r)
  case (Inl e)
  with assms show ?thesis by simp
next
  case (Inr x)
  with assms have "s = JSON_stringify (JObj (f x))" by simp
  then show ?thesis by (simp only: json_object_textI)
qed

lemma getSoroswapTokenPairs_json: "json_object_text (getSoroswapTokenPairs w token)"
  unfolding getSoroswapTokenPairs_def Let_def
  by (rule catch_payload_json) (erule lift_json)

lemma getSoroswapSwapQuote_json: "json_object_text (getSoroswapSwapQuote w a b c d)"
  unfolding getSoroswapSwapQuote_def Let_def
proof (rule catch_payload_json)
  fix s :: string and kvs
  assume "Inr (JSON_stringify (JObj kvs)) = (Inr s :: js_error + string)"
  then have "s = JSON_stringify (JObj kvs)" by simp
  then show "json_object_text s" by (simp only: json_object_textI)
qed

lemma getSoroswapLiquidityPools_json: "json_object_text (getSoroswapLiquidityPools a)"
  unfolding getSoroswapLiquidityPools_def Let_def by (rule json_object_textI)

lemma getSoroswapTokenPrice_json: "json_object_text (getSoroswapTokenPrice w a b)"
  unfolding getSoroswapTokenPrice_def Let_def by (rule json_object_textI)

lemma getDefindexVaults_json: "json_object_text (getDefindexVaults w a b)"
  unfolding getDefindexVaults_def Let_def
  by (rule catch_payload_json) (erule lift_json)

lemma getDefindexVaultDetails_json: "json_object_text (getDefindexVaultDetails a)"
  unfolding getDefindexVaultDetails_def Let_def by (rule json_object_textI)

lemma optimizeDefindexAllocation_json: "json_object_text (optimizeDefindexAllocation a b c)"
  unfolding optimizeDefindexAllocation_def Let_def by (rule json_object_textI)

lemma getCombinedPortfolioAnalysis_json: "json_object_text (getCombinedPortfolioAnalysis w a b)"
  unfolding getCombinedPortfolioAnalysis_def
  by (rule catch_payload_json) (erule lift_json)

lemmas handler_json =
  getSoroswapTokenPairs_json getSoroswapSwapQuote_json getSoroswapLiquidityPools_json
  getSoroswapTokenPrice_json getDefindexVaults_json getDefindexVaultDetails_json
  optimizeDefindexAllocation_json getCombinedPortfolioAnalysis_json







section \<open>The combined portfolio analysis\<close>

lemma summary_field_analysis:
  "summary_field (JObj ((''userAddress'', u) # (''summary'', JObj kvs) # rest)) k =
     (case map_of kvs k of None \<Rightarrow> JUndefined | Some v \<Rightarrow> v)"
  by (simp add: summary_field_def get_prop_def)

lemma portfolio_analysis_summary:
  assumes "portfolio_analysis w userAddress r = Inr analysis"
  shows "\<exists>totalValue totalPnl.
           summary_field analysis ''totalValue'' = JStr (num_toString totalValue) \<and>
           summary_field analysis ''totalPnl'' = JStr (num_toString totalPnl) \<and>
           summary_field analysis ''totalPnlPercent'' = JStr (totalPnlPercent_of totalPnl totalValue)"
proof -
  define sp where "sp = served_val (\<lambda>ps. JArr (map soroswap_position_json ps))
                          (getUserPositions_soroswap w userAddress)"
  define dp where "dp = served_val (\<lambda>ps. JArr (map defindex_position_json ps))
                          (getUserPositions_defindex w userAddress)"
  obtain a b c d where sums:
    "reduce_sum ''soroswapPositions'' (field_or_zero ''value'') sp = Inr a"
    "reduce_sum ''defindexPositions'' (field_number ''underlyingValue'') dp = Inr b"
    "reduce_sum ''soroswapPositions'' (field_or_zero ''pnl'') sp = Inr c"
    "reduce_sum ''defindexPositions'' (field_number ''pnl'') dp = Inr d"
    using assms unfolding portfolio_analysis_def Let_def sp_def [symmetric] dp_def [symmetric]
    by (auto split: sum.splits)
  from assms have "analysis =
     JObj ([(''userAddress'', opt_str userAddress),
            (''summary'',
               JObj [(''totalValue'', JStr (num_toString (num_add a b))),
                     (''soroswapValue'', JStr (num_toString a)),
                     (''defindexValue'', JStr (num_toString b)),
                     (''totalPnl'', JStr (num_toString (num_add c d))),
                     (''totalPnlPercent'', JStr (totalPnlPercent_of (num_add c d) (num_add a b)))]),
            (''soroswapPositions'', sp),
            (''defindexPositions'', dp),
            (''riskMetrics'',
               JObj [(''portfolioRisk'', JStr ''medium''),
                     (''diversificationScore'', JStr ''78''),
                     (''concentrationRisk'', JStr ''low'')])]
           @ (if r then [(''recommendations'', recommendations)] else []))"
    unfolding portfolio_analysis_def Let_def sp_def [symmetric] dp_def [symmetric]
    by (simp add: sums)
  then have
    "summary_field analysis ''totalValue'' = JStr (num_toString (num_add a b))"
    "summary_field analysis ''totalPnl'' = JStr (num_toString (num_add c d))"
    "summary_field analysis ''totalPnlPercent'' = JStr (totalPnlPercent_of (num_add c d) (num_add a b))"
    by (simp_all add: summary_field_analysis)
  then show ?thesis by blast
qed

text \<open>
  C9, as stated: with a positive total value the reported \<open>totalPnlPercent\<close> equals
  \<open>totalPnl / totalValue * 100\<close>. The report is that number run through \<open>toFixed(2)\<close>:
  for one position worth 3 with a profit of 1 it is \<open>33.33\<close>, which is not the number
  \<open>1 / 3 * 100\<close>.
\<close>

theorem C9_two_decimals_counterexample:
  "(case portfolio_analysis one_position_world (Some ''GUSER'') True of
      Inl e \<Rightarrow> False
    | Inr analysis \<Rightarrow>
        summary_field analysis ''totalValue'' = JStr ''3'' \<and>
        summary_field analysis ''totalPnl'' = JStr ''1'' \<and>
        summary_field analysis ''totalPnlPercent'' = JStr ''33.33'') \<and>
   num_less (Fin 0) (parseFloat ''3'') \<and>
   parseFloat ''33.33'' \<noteq> num_mul (num_div (parseFloat ''1'') (parseFloat ''3'')) (Fin 100)"
  by code_simp

text \<open>
  C9, amended. The analysis reports, beside the total value and the total profit, a
  \<open>totalPnlPercent\<close> that is \<open>totalPnl / totalValue * 100\<close> written with two decimals
  (\<open>toFixed(2)\<close>) when the total value is positive, and the string \<open>0\<close> otherwise: so
  for a total value of 0 it is \<open>0\<close>, and neither \<open>NaN\<close> nor \<open>Infinity\<close>.
\<close>

theorem C9_percent_is_guarded:
  assumes "portfolio_analysis w userAddress r = Inr analysis"
  shows "\<exists>totalValue totalPnl.
           summary_field analysis ''totalValue'' = JStr (num_toString totalValue) \<and>
           summary_field analysis ''totalPnl'' = JStr (num_toString totalPnl) \<and>
           (num_less (Fin 0) totalValue \<longrightarrow>
              summary_field analysis ''totalPnlPercent'' =
                JStr (toFixed 2 (num_mul (num_div totalPnl totalValue) (Fin 100)))) \<and>
           (\<not> num_less (Fin 0) totalValue \<longrightarrow>
              summary_field analysis ''totalPnlPercent'' = JStr ''0'') \<and>
           (totalValue = Fin 0 \<longrightarrow>
              summary_field analysis ''totalPnlPercent'' = JStr ''0'' \<and>
              summary_field analysis ''totalPnlPercent'' \<noteq> JStr ''NaN'' \<and>
              summary_field analysis ''totalPnlPercent'' \<noteq> JStr ''Infinity'')"
proof -
  from portfolio_analysis_summary [OF assms] obtain totalValue totalPnl where
    "summary_field analysis ''totalValue'' = JStr (num_toString totalValue)"
    "summary_field analysis ''totalPnl'' = JStr (num_toString totalPnl)"
    "summary_field analysis ''totalPnlPercent'' = JStr (totalPnlPercent_of totalPnl totalValue)"
    by blast
  then show ?thesis
    by (intro exI [of _ totalValue] exI [of _ totalPnl]) (auto simp: totalPnlPercent_of_def)
qed

theorem C9_percent_is_guarded_witness:
  "\<exists>analysis.
     portfolio_analysis offline None True = Inr analysis \<and>
     summary_field analysis ''totalPnlPercent'' = JStr ''5.00'' \<and>
     (\<exists>totalValue totalPnl.
        summary_field analysis ''totalValue'' = JStr (num_toString totalValue) \<and>
        summary_field analysis ''totalPnl'' = JStr (num_toString totalPnl) \<and>
        num_less (Fin 0) totalValue)"
proof -
  have "case portfolio_analysis offline None True of
          Inl e \<Rightarrow> False
        | Inr a \<Rightarrow> summary_field a ''totalPnlPercent'' = JStr ''5.00''"
    by code_simp
  then obtain analysis where a: "portfolio_analysis offline None True = Inr analysis"
    and p: "summary_field analysis ''totalPnlPercent'' = JStr ''5.00''"
    by (auto split: sum.splits)
  from C9_percent_is_guarded [OF a] obtain totalValue totalPnl where
    v: "summary_field analysis ''totalValue'' = JStr (num_toString totalValue)"
    and n: "summary_field analysis ''totalPnl'' = JStr (num_toString totalPnl)"
    and z: "\<not> num_less (Fin 0) totalValue \<longrightarrow>
              summary_field analysis ''totalPnlPercent'' = JStr ''0''"
    by blast
  from z p have "num_less (Fin 0) totalValue" by auto
  with a p v n show ?thesis by blast
qed

end
